theory Spec2Isabelle
  imports Complex_Main "HOL-Library.Char_ord" "HOL-Library.List_Lexorder"
begin

section \<open>Data model: pandas tables\<close>

text \<open>
  The three pipelines (\<^verbatim>\<open>fetch_REIT_data.py\<close>, \<^verbatim>\<open>fetch_Climate_data.py\<close>,
  \<^verbatim>\<open>fetch_dataset2_data.py\<close>) work on a pandas DataFrame. A float64 value is
  modelled as an exact rational or one of the two infinities; NaN is the missing value
  \<open>Null\<close> of a cell (pandas makes no difference between NaN, None and NaT in
  \<^verbatim>\<open>isnull\<close>). Arithmetic is exact: rounding is not modelled. An arithmetic result that
  may be NaN has type \<open>xfloat option\<close>, with \<open>None\<close> for NaN.
\<close>

datatype xfloat = NInf | Fin rat | PInf

instantiation xfloat :: linorder
begin

fun less_eq_xfloat :: "xfloat \<Rightarrow> xfloat \<Rightarrow> bool" where
  "less_eq_xfloat NInf _ = True"
| "less_eq_xfloat (Fin a) NInf = False"
| "less_eq_xfloat (Fin a) (Fin b) = (a \<le> b)"
| "less_eq_xfloat (Fin a) PInf = True"
| "less_eq_xfloat PInf PInf = True"
| "less_eq_xfloat PInf _ = False"

definition less_xfloat :: "xfloat \<Rightarrow> xfloat \<Rightarrow> bool" where
  "less_xfloat a b = (a \<le> b \<and> \<not> b \<le> a)"

instance
proof
  fix x y z :: xfloat
  show "(x < y) = (x \<le> y \<and> \<not> y \<le> x)" by (simp add: less_xfloat_def)
  show "x \<le> x" by (cases x) auto
  show "x \<le> y \<Longrightarrow> y \<le> z \<Longrightarrow> x \<le> z" by (cases x; cases y; cases z) auto
  show "x \<le> y \<Longrightarrow> y \<le> x \<Longrightarrow> x = y" by (cases x; cases y) auto
  show "x \<le> y \<or> y \<le> x" by (cases x; cases y) auto
qed

end

type_synonym fl = "xfloat option"

fun fneg :: "xfloat \<Rightarrow> xfloat" where
  "fneg NInf = PInf"
| "fneg (Fin a) = Fin (- a)"
| "fneg PInf = NInf"

fun fadd :: "xfloat \<Rightarrow> xfloat \<Rightarrow> fl" where
  "fadd (Fin a) (Fin b) = Some (Fin (a + b))"
| "fadd PInf NInf = None"
| "fadd NInf PInf = None"
| "fadd PInf _ = Some PInf"
| "fadd NInf _ = Some NInf"
| "fadd (Fin a) b = Some b"

fun fscale :: "rat \<Rightarrow> xfloat \<Rightarrow> fl" where
  "fscale k (Fin a) = Some (Fin (k * a))"
| "fscale k PInf = (if k = 0 then None else if 0 < k then Some PInf else Some NInf)"
| "fscale k NInf = (if k = 0 then None else if 0 < k then Some NInf else Some PInf)"

text \<open>The same operations with NaN propagated through both arguments.\<close>

definition nadd :: "fl \<Rightarrow> fl \<Rightarrow> fl" where
  "nadd a b = (case a of None \<Rightarrow> None | Some x \<Rightarrow> (case b of None \<Rightarrow> None | Some y \<Rightarrow> fadd x y))"

definition nsub :: "fl \<Rightarrow> fl \<Rightarrow> fl" where
  "nsub a b = (case a of None \<Rightarrow> None | Some x \<Rightarrow> (case b of None \<Rightarrow> None | Some y \<Rightarrow> fadd x (fneg y)))"

definition nscale :: "rat \<Rightarrow> fl \<Rightarrow> fl" where
  "nscale k a = (case a of None \<Rightarrow> None | Some x \<Rightarrow> fscale k x)"

text \<open>
  A timestamp is given by its calendar fields (year, month, day, nanosecond of the day);
  \<open>ts_le\<close> is the chronological order.
\<close>

type_synonym timestamp = "int \<times> nat \<times> nat \<times> nat"

fun ts_le :: "timestamp \<Rightarrow> timestamp \<Rightarrow> bool" where
  "ts_le (y1, m1, d1, n1) (y2, m2, d2, n2) =
     (y1 < y2 \<or> (y1 = y2 \<and> (m1 < m2 \<or> (m1 = m2 \<and> (d1 < d2 \<or> (d1 = d2 \<and> n1 \<le> n2))))))"

datatype cell = Null | Num xfloat | Str string | TS timestamp

text \<open>
  The dtype of a column: \<open>Numeric\<close> stands for float64 and int64 (the code never tells
  them apart), \<open>Object\<close> for a column of strings, \<open>Datetime64\<close> for timestamps. Boolean
  columns are not modelled.
\<close>

datatype dtype = Numeric | Object | Datetime64

datatype column = Column (cname: string) (ctype: dtype) (cells: "cell list")

text \<open>
  A DataFrame is its row index (the row labels, kept by every row selection) and its
  columns in order. \<^verbatim>\<open>len(df)\<close> is the length of the index, also when the frame has no
  column left.
\<close>

datatype table = Table (index: "nat list") (cols: "column list")

definition nrows :: "table \<Rightarrow> nat" where
  "nrows t = length (index t)"

definition ncols :: "table \<Rightarrow> nat" where
  "ncols t = length (cols t)"

definition columns :: "table \<Rightarrow> string list" where
  "columns t = map cname (cols t)"

fun cell_ok :: "dtype \<Rightarrow> cell \<Rightarrow> bool" where
  "cell_ok _ Null = True"
| "cell_ok Numeric (Num _) = True"
| "cell_ok Object (Str _) = True"
| "cell_ok Datetime64 (TS _) = True"
| "cell_ok _ _ = False"

definition wf_column :: "nat \<Rightarrow> column \<Rightarrow> bool" where
  "wf_column n c = (length (cells c) = n \<and> list_all (cell_ok (ctype c)) (cells c))"

text \<open>
  A well-formed frame: every column is as long as the index, its cells have the column's
  dtype, and column names are unique (as \<^verbatim>\<open>read_csv\<close> makes them).
\<close>

definition wf_table :: "table \<Rightarrow> bool" where
  "wf_table t = (list_all (wf_column (nrows t)) (cols t) \<and> distinct (columns t))"

definition isnull :: "cell \<Rightarrow> bool" where
  "isnull c = (c = Null)"

definition notna :: "cell \<Rightarrow> bool" where
  "notna c = (c \<noteq> Null)"

fun get_col :: "column list \<Rightarrow> string \<Rightarrow> column option" where
  "get_col [] name = None"
| "get_col (c # cs) name = (if cname c = name then Some c else get_col cs name)"

text \<open>\<^verbatim>\<open>df[mask]\<close>: boolean indexing keeps the rows whose mask entry is true.\<close>

fun sel :: "bool list \<Rightarrow> 'a list \<Rightarrow> 'a list" where
  "sel (b # bs) (x # xs) = (if b then x # sel bs xs else sel bs xs)"
| "sel _ _ = []"

definition sel_col :: "bool list \<Rightarrow> column \<Rightarrow> column" where
  "sel_col m c = Column (cname c) (ctype c) (sel m (cells c))"

definition boolean_index :: "bool list \<Rightarrow> table \<Rightarrow> table" where
  "boolean_index m t = Table (sel m (index t)) (map (sel_col m) (cols t))"

text \<open>\<^verbatim>\<open>df[name] = values\<close>: replaces the column in place, or appends a new one.\<close>

fun set_col :: "column \<Rightarrow> column list \<Rightarrow> column list" where
  "set_col c [] = [c]"
| "set_col c (d # ds) = (if cname d = cname c then c # ds else d # set_col c ds)"

section \<open>Column statistics\<close>

fun nums :: "cell list \<Rightarrow> xfloat list" where
  "nums [] = []"
| "nums (Num x # cs) = x # nums cs"
| "nums (_ # cs) = nums cs"

definition to_cell :: "fl \<Rightarrow> cell" where
  "to_cell v = (case v of None \<Rightarrow> Null | Some x \<Rightarrow> Num x)"

text \<open>
  \<^verbatim>\<open>Series.median()\<close> skips missing values; of an even number of values it is the mean
  of the two middle ones, which is NaN when they are the two infinities. Of no value at
  all it is NaN.
\<close>

definition median :: "cell list \<Rightarrow> fl" where
  "median cs =
     (let vs = sort (nums cs); n = length vs
      in if n = 0 then None
         else if odd n then Some (vs ! (n div 2))
         else nscale (1 / 2) (fadd (vs ! (n div 2 - 1)) (vs ! (n div 2))))"

text \<open>
  \<^verbatim>\<open>Series.quantile(q)\<close> with the default linear interpolation, as numpy computes it:
  the virtual index \<open>(n - 1) * q\<close>, its two neighbours, and the interpolation
  \<^verbatim>\<open>_lerp\<close> between them. Missing values are skipped; \<open>q\<close> is between 0 and 1, as
  in the source (0.25 and 0.75).
\<close>

definition lerp :: "xfloat \<Rightarrow> xfloat \<Rightarrow> rat \<Rightarrow> fl" where
  "lerp a b t =
     (let d = fadd b (fneg a)
      in if 1 / 2 \<le> t then nsub (Some b) (nscale (1 - t) d)
         else nadd (Some a) (nscale t d))"

definition quantile :: "rat \<Rightarrow> cell list \<Rightarrow> fl" where
  "quantile q cs =
     (let vs = sort (nums cs); n = length vs
      in if n = 0 then None
         else let h = of_nat (n - 1) * q;
                  lo = nat \<lfloor>h\<rfloor>;
                  hi = min (lo + 1) (n - 1)
              in lerp (vs ! lo) (vs ! hi) (h - of_nat lo))"

text \<open>Comparison of a cell with a bound: false on a missing cell and on a NaN bound.\<close>

fun cell_lt :: "cell \<Rightarrow> fl \<Rightarrow> bool" where
  "cell_lt (Num x) (Some b) = (x < b)"
| "cell_lt _ _ = False"

fun cell_gt :: "cell \<Rightarrow> fl \<Rightarrow> bool" where
  "cell_gt (Num x) (Some b) = (b < x)"
| "cell_gt _ _ = False"

definition OUTLIER_THRESHOLD :: rat where
  "OUTLIER_THRESHOLD = 3 / 2"

definition identify_outliers_iqr :: "cell list \<Rightarrow> rat \<Rightarrow> bool list" where
  "identify_outliers_iqr series k =
     (let Q1 = quantile (1 / 4) series;
          Q3 = quantile (3 / 4) series;
          IQR = nsub Q3 Q1;
          lower_bound = nsub Q1 (nscale k IQR);
          upper_bound = nadd Q3 (nscale k IQR)
      in map (\<lambda>c. cell_lt c lower_bound \<or> cell_gt c upper_bound) series)"

section \<open>Missing values\<close>

text \<open>
  \<^verbatim>\<open>mode()[0]\<close>: the most frequent of the values that are not missing, the smallest one
  when several are as frequent (pandas returns the modes sorted). \<open>None\<close> when the
  result of \<^verbatim>\<open>mode()\<close> is empty, that is when every value is missing.
\<close>

fun cell_less :: "cell \<Rightarrow> cell \<Rightarrow> bool" where
  "cell_less (Num a) (Num b) = (a < b)"
| "cell_less (Str a) (Str b) = (a < b)"
| "cell_less (TS a) (TS b) = (ts_le a b \<and> a \<noteq> b)"
| "cell_less _ _ = False"

definition better :: "cell list \<Rightarrow> cell \<Rightarrow> cell \<Rightarrow> cell" where
  "better vs x b =
     (if count_list vs b < count_list vs x \<or> (count_list vs x = count_list vs b \<and> cell_less x b)
      then x else b)"

definition mode0 :: "cell list \<Rightarrow> cell option" where
  "mode0 cs = (case filter notna cs of [] \<Rightarrow> None | v # vs \<Rightarrow> Some (fold (better (v # vs)) vs v))"

text \<open>\<^verbatim>\<open>Series.max()\<close>, skipping missing values; missing when there is no value.\<close>

definition series_max :: "cell list \<Rightarrow> cell" where
  "series_max cs =
     (case filter notna cs of [] \<Rightarrow> Null
      | v # vs \<Rightarrow> fold (\<lambda>x b. if cell_less b x then x else b) vs v)"

definition null_count :: "column \<Rightarrow> nat" where
  "null_count c = length (filter isnull (cells c))"

text \<open>
  \<^verbatim>\<open>df.isnull().sum() / len(df)\<close>, for one column. On a frame without rows numpy
  divides 0 by 0 and gives NaN, without raising.
\<close>

definition missing_pct :: "table \<Rightarrow> column \<Rightarrow> fl" where
  "missing_pct t c =
     (if nrows t = 0 then (if null_count c = 0 then None else Some PInf)
      else Some (Fin (of_nat (null_count c) / of_nat (nrows t))))"

fun fl_gt :: "fl \<Rightarrow> rat \<Rightarrow> bool" where
  "fl_gt None k = False"
| "fl_gt (Some x) k = (Fin k < x)"

text \<open>
  \<^verbatim>\<open>fillna(v)\<close>: every missing cell becomes \<open>v\<close>; with \<open>v\<close> NaN nothing changes. A
  string written into a column makes it an object column.
\<close>

definition fillna :: "cell \<Rightarrow> column \<Rightarrow> column" where
  "fillna v c =
     Column (cname c) (case v of Str _ \<Rightarrow> Object | _ \<Rightarrow> ctype c)
       (map (\<lambda>x. if isnull x then v else x) (cells c))"

record missing_summary =
  rows_before :: nat
  cols_before :: nat
  rows_after :: nat
  cols_after :: nat
  cols_dropped :: nat

definition MISSING_VALUE_THRESHOLD :: rat where
  "MISSING_VALUE_THRESHOLD = 1 / 2"

text \<open>
  \<^verbatim>\<open>clean_missing_values\<close> of \<^verbatim>\<open>fetch_REIT_data.py\<close>. Step 3 of the source is the loop
  \<^verbatim>\<open>for col in df.columns: ... df[col] = df[col].fillna(impute_val)\<close>; every pass reads
  and writes its own column only, so the loop is a \<open>map\<close> over the columns. The function
  has no \<^verbatim>\<open>raise\<close>, and none of its pandas calls raises on a well-formed frame: it always
  returns.
\<close>

definition reit_impute :: "column \<Rightarrow> column" where
  "reit_impute c =
     (if 0 < null_count c then
        (if ctype c = Numeric then fillna (to_cell (median (cells c))) c
         else fillna (case mode0 (cells c) of Some v \<Rightarrow> v | None \<Rightarrow> Str ''Unknown'') c)
      else c)"

definition reit_clean_missing_values :: "table \<Rightarrow> rat \<Rightarrow> table \<times> missing_summary" where
  "reit_clean_missing_values df threshold =
     (let cols_to_drop = filter (\<lambda>c. fl_gt (missing_pct df c) threshold) (cols df);
          kept = filter (\<lambda>c. \<not> fl_gt (missing_pct df c) threshold) (cols df);
          df' = Table (index df) (map reit_impute kept)
      in (df', \<lparr> rows_before = nrows df, cols_before = ncols df,
                 rows_after = nrows df', cols_after = ncols df',
                 cols_dropped = length cols_to_drop \<rparr>))"

text \<open>
  \<^verbatim>\<open>clean_missing_values\<close> of \<^verbatim>\<open>fetch_Climate_data.py\<close> (the one of
  \<^verbatim>\<open>fetch_dataset2_data.py\<close> is the same text). The ratio is compared in percent. The
  source fills with \<^verbatim>\<open>df[col].fillna(fill_value, inplace=True)\<close>, which is taken to update
  the frame, as it does in pandas before version 3.
\<close>

definition climate_impute :: "column \<Rightarrow> column" where
  "climate_impute c =
     (if 0 < null_count c then
        (if ctype c = Numeric then fillna (to_cell (median (cells c))) c
         else if ctype c = Datetime64 then
           fillna (case mode0 (cells c) of Some v \<Rightarrow> v | None \<Rightarrow> series_max (cells c)) c
         else fillna (case mode0 (cells c) of Some v \<Rightarrow> v | None \<Rightarrow> Str ''Unknown'') c)
      else c)"

definition climate_clean_missing_values :: "table \<Rightarrow> rat \<Rightarrow> table" where
  "climate_clean_missing_values df threshold =
     (let kept = filter (\<lambda>c. \<not> fl_gt (nscale 100 (missing_pct df c)) (threshold * 100)) (cols df)
      in Table (index df) (map climate_impute kept))"

definition has_missing :: "table \<Rightarrow> bool" where
  "has_missing t = list_ex (\<lambda>c. list_ex isnull (cells c)) (cols t)"

section \<open>Outliers\<close>

datatype error = ValueError | TypeError | IndexError

definition count_true :: "bool list \<Rightarrow> nat" where
  "count_true m = length (filter id m)"

subsection \<open>Z-scores\<close>

text \<open>
  Mean and variance of finite values; \<open>ddof\<close> is 0 for \<^verbatim>\<open>scipy.stats.zscore\<close> and 1 for
  \<^verbatim>\<open>Series.std()\<close>. As soon as one value is infinite the standard deviation is NaN, and
  so is every z-score: \<open>fins\<close> gives the values only when all of them are finite.
\<close>

fun fins :: "cell list \<Rightarrow> rat list option" where
  "fins [] = Some []"
| "fins (Num (Fin x) # cs) = (case fins cs of None \<Rightarrow> None | Some xs \<Rightarrow> Some (x # xs))"
| "fins (_ # cs) = None"

definition mean :: "rat list \<Rightarrow> rat" where
  "mean xs = sum_list xs / of_nat (length xs)"

definition variance :: "nat \<Rightarrow> rat list \<Rightarrow> rat" where
  "variance ddof xs = sum_list (map (\<lambda>x. (x - mean xs)\<^sup>2) xs) / of_nat (length xs - ddof)"

text \<open>
  \<open>zgt d v thr\<close> is the test \<^verbatim>\<open>abs(d / std) > thr\<close> for \<open>std\<close> the square root of the
  variance \<open>v\<close>, written without the root. A zero \<open>std\<close> does not raise in numpy: 0/0 is
  NaN, which exceeds nothing, and d/0 for another \<open>d\<close> is infinite, which exceeds every
  threshold.
\<close>

definition zgt :: "rat \<Rightarrow> rat \<Rightarrow> rat \<Rightarrow> bool" where
  "zgt d v thr = (if v = 0 then d \<noteq> 0 else (thr < 0 \<or> thr\<^sup>2 * v < d\<^sup>2))"

text \<open>
  \<^verbatim>\<open>identify_outliers_zscore\<close> of \<^verbatim>\<open>fetch_REIT_data.py\<close>:
  \<^verbatim>\<open>np.abs(stats.zscore(series)) > threshold\<close>. \<^verbatim>\<open>stats.zscore\<close> propagates NaN: one
  missing value makes every z-score NaN.
\<close>

definition identify_outliers_zscore :: "cell list \<Rightarrow> rat \<Rightarrow> bool list" where
  "identify_outliers_zscore series threshold =
     (case fins series of
        None \<Rightarrow> map (\<lambda>_. False) series
      | Some xs \<Rightarrow> map (\<lambda>x. zgt (x - mean xs) (variance 0 xs) threshold) xs)"

text \<open>
  The mask of \<^verbatim>\<open>handle_outliers_zscore\<close> (\<^verbatim>\<open>fetch_Climate_data.py\<close>,
  \<^verbatim>\<open>fetch_dataset2_data.py\<close>):
  \<^verbatim>\<open>np.abs((df[col] - df[col].mean()) / df[col].std()) > threshold\<close>. Mean and standard
  deviation skip missing values; the standard deviation of fewer than two values is NaN.
\<close>

definition zscore_mask :: "rat \<Rightarrow> cell list \<Rightarrow> bool list" where
  "zscore_mask threshold cs =
     (case fins (filter notna cs) of
        None \<Rightarrow> map (\<lambda>_. False) cs
      | Some xs \<Rightarrow>
          if length xs < 2 then map (\<lambda>_. False) cs
          else map (\<lambda>c. case c of Num (Fin x) \<Rightarrow> zgt (x - mean xs) (variance 1 xs) threshold
                               | _ \<Rightarrow> False) cs)"

definition numeric_cols :: "table \<Rightarrow> string list" where
  "numeric_cols df = map cname (filter (\<lambda>c. ctype c = Numeric) (cols df))"

definition zscore_step :: "rat \<Rightarrow> string \<Rightarrow> table \<Rightarrow> table" where
  "zscore_step threshold col df =
     (case get_col (cols df) col of
        None \<Rightarrow> df
      | Some c \<Rightarrow>
          let outlier_mask = zscore_mask threshold (cells c)
          in if 0 < count_true outlier_mask then boolean_index (map Not outlier_mask) df else df)"

definition handle_outliers_zscore :: "table \<Rightarrow> rat \<Rightarrow> table" where
  "handle_outliers_zscore df threshold = fold (zscore_step threshold) (numeric_cols df) df"

subsection \<open>Winsorization\<close>

text \<open>
  \<^verbatim>\<open>argsort\<close>: the positions in ascending order of their values, NaN last, equal
  values in the order of their positions.
\<close>

fun num_of :: "cell \<Rightarrow> xfloat" where
  "num_of (Num x) = x"
| "num_of _ = Fin 0"

definition argsort :: "cell list \<Rightarrow> nat list" where
  "argsort a =
     sort_key (\<lambda>i. num_of (a ! i)) (filter (\<lambda>i. notna (a ! i)) [0..<length a])
     @ filter (\<lambda>i. isnull (a ! i)) [0..<length a]"

text \<open>\<^verbatim>\<open>a[positions] = v\<close>\<close>

definition assign :: "nat list \<Rightarrow> 'a \<Rightarrow> 'a list \<Rightarrow> 'a list" where
  "assign ps v a = fold (\<lambda>i b. b[i := v]) ps a"

text \<open>
  \<^verbatim>\<open>scipy.stats.mstats.winsorize(a, limits)\<close> on a one-dimensional array, with both
  limits inclusive (scipy's \<^verbatim>\<open>_winsorize1D\<close>): the \<open>int(low * n)\<close> smallest values become
  the next larger one, the \<open>int(n * up)\<close> largest the next smaller one. Reading position
  \<open>lowidx\<close> of an array that is not that long raises; \<open>idx[upidx - 1]\<close> with
  \<open>upidx = 0\<close> is Python's \<open>idx[-1]\<close>.
\<close>

definition winsorize :: "cell list \<Rightarrow> rat \<times> rat \<Rightarrow> error + cell list" where
  "winsorize a limits =
     (let (lolim, uplim) = limits
      in if 1 < lolim \<or> lolim < 0 \<or> 1 < uplim \<or> uplim < 0 then Inl ValueError
         else
           let n = length a;
               idx = argsort a;
               lowidx = nat \<lfloor>lolim * of_nat n\<rfloor>;
               upidx = n - nat \<lfloor>of_nat n * uplim\<rfloor>
           in if lolim \<noteq> 0 \<and> n \<le> lowidx then Inl IndexError
              else if n = 0 then Inl IndexError
              else
                let a1 = (if lolim \<noteq> 0 then assign (take lowidx idx) (a ! (idx ! lowidx)) a else a);
                    j = (if upidx = 0 then n - 1 else upidx - 1)
                in Inr (assign (drop upidx idx) (a1 ! (idx ! j)) a1))"

definition WINSORIZE_LIMITS :: "rat \<times> rat" where
  "WINSORIZE_LIMITS = (1 / 20, 1 / 20)"

record outlier_summary =
  outliers_found :: nat
  columns_processed :: nat

text \<open>
  \<^verbatim>\<open>handle_outliers\<close> of \<^verbatim>\<open>fetch_REIT_data.py\<close>, with \<^verbatim>\<open>numeric_only=True\<close> as
  \<^verbatim>\<open>main\<close> calls it. The method is checked inside the loop over the numeric columns, once
  for every column.
\<close>

definition outlier_mask :: "string \<Rightarrow> cell list \<Rightarrow> error + bool list" where
  "outlier_mask method series =
     (if method = ''iqr'' then Inr (identify_outliers_iqr series OUTLIER_THRESHOLD)
      else if method = ''zscore'' then Inr (identify_outliers_zscore series OUTLIER_THRESHOLD)
      else Inl ValueError)"

fun outliers_loop ::
  "string \<Rightarrow> column list \<Rightarrow> outlier_summary \<Rightarrow> error + (column list \<times> outlier_summary)" where
  "outliers_loop method [] s = Inr ([], s)"
| "outliers_loop method (c # cs) s =
     (if ctype c \<noteq> Numeric then
        (case outliers_loop method cs s of
           Inl e \<Rightarrow> Inl e
         | Inr (cs', s') \<Rightarrow> Inr (c # cs', s'))
      else
        (case outlier_mask method (cells c) of
           Inl e \<Rightarrow> Inl e
         | Inr m \<Rightarrow>
             let outlier_count = count_true m
             in if 0 < outlier_count then
                  (case winsorize (cells c) WINSORIZE_LIMITS of
                     Inl e \<Rightarrow> Inl e
                   | Inr w \<Rightarrow>
                       (case outliers_loop method cs
                               \<lparr> outliers_found = outliers_found s + outlier_count,
                                 columns_processed = columns_processed s + 1 \<rparr> of
                          Inl e \<Rightarrow> Inl e
                        | Inr (cs', s') \<Rightarrow> Inr (Column (cname c) Numeric w # cs', s')))
                else
                  (case outliers_loop method cs s of
                     Inl e \<Rightarrow> Inl e
                   | Inr (cs', s') \<Rightarrow> Inr (c # cs', s'))))"

definition handle_outliers :: "table \<Rightarrow> string \<Rightarrow> error + (table \<times> outlier_summary)" where
  "handle_outliers df method =
     (case outliers_loop method (cols df) \<lparr> outliers_found = 0, columns_processed = 0 \<rparr> of
        Inl e \<Rightarrow> Inl e
      | Inr (cs, s) \<Rightarrow> Inr (Table (index df) cs, s))"

section \<open>Duplicates\<close>

text \<open>
  The rows of a frame. \<^verbatim>\<open>df.duplicated()\<close> marks a row that equals an earlier one, two
  missing values counting as equal; on a frame without rows or without columns
  (\<^verbatim>\<open>df.empty\<close>) it returns an empty series and \<^verbatim>\<open>drop_duplicates\<close> a copy.
\<close>

definition rows :: "table \<Rightarrow> cell list list" where
  "rows t = map (\<lambda>i. map (\<lambda>c. cells c ! i) (cols t)) [0..<nrows t]"

fun dup_from :: "'a list \<Rightarrow> 'a list \<Rightarrow> bool list" where
  "dup_from seen [] = []"
| "dup_from seen (r # rs) = (r \<in> set seen) # dup_from (r # seen) rs"

definition df_empty :: "table \<Rightarrow> bool" where
  "df_empty t = (index t = [] \<or> cols t = [])"

definition duplicated :: "table \<Rightarrow> bool list" where
  "duplicated t = (if df_empty t then [] else dup_from [] (rows t))"

definition drop_duplicates :: "table \<Rightarrow> table" where
  "drop_duplicates t = (if df_empty t then t else boolean_index (map Not (duplicated t)) t)"

text \<open>
  \<^verbatim>\<open>remove_duplicates\<close> of \<^verbatim>\<open>fetch_Climate_data.py\<close> and \<^verbatim>\<open>fetch_dataset2_data.py\<close>;
  the one of \<^verbatim>\<open>fetch_REIT_data.py\<close> returns a summary with the same frame.
\<close>

definition remove_duplicates :: "table \<Rightarrow> table" where
  "remove_duplicates df =
     (let dup_count = count_true (duplicated df)
      in if 0 < dup_count then drop_duplicates df else df)"

record duplicate_summary =
  dup_rows_before :: nat
  duplicates_found :: nat
  dup_rows_after :: nat

definition reit_remove_duplicates :: "table \<Rightarrow> table \<times> duplicate_summary" where
  "reit_remove_duplicates df =
     (let found = count_true (duplicated df);
          df' = (if 0 < found then drop_duplicates df else df)
      in (df', \<lparr> dup_rows_before = nrows df, duplicates_found = found,
                 dup_rows_after = nrows df' \<rparr>))"

section \<open>Filters\<close>

text \<open>
  \<^verbatim>\<open>pd.to_datetime\<close> is pandas' date parser. It is a parameter of the model: \<open>to_dt\<close>
  gives the timestamp of a value that is not missing, or \<open>None\<close> when the parser rejects
  it (it raises then). Missing values become NaT; timestamps stay.
\<close>

fun to_datetime_cells :: "(cell \<Rightarrow> timestamp option) \<Rightarrow> cell list \<Rightarrow> error + cell list" where
  "to_datetime_cells to_dt [] = Inr []"
| "to_datetime_cells to_dt (c # cs) =
     (case (case c of Null \<Rightarrow> Some Null | TS t \<Rightarrow> Some (TS t)
                   | _ \<Rightarrow> map_option TS (to_dt c)) of
        None \<Rightarrow> Inl ValueError
      | Some d \<Rightarrow>
          (case to_datetime_cells to_dt cs of Inl e \<Rightarrow> Inl e | Inr ds \<Rightarrow> Inr (d # ds)))"

text \<open>\<^verbatim>\<open>.dt.year\<close>: the year of a timestamp, NaN for NaT.\<close>

fun dt_year :: "cell \<Rightarrow> cell" where
  "dt_year (TS (y, m, d, n)) = Num (Fin (of_int y))"
| "dt_year _ = Null"

text \<open>
  A column compared with a number (\<^verbatim>\<open>df[col] >= k\<close>, \<^verbatim>\<open>df[col] > k\<close>): false on a
  missing value; a TypeError on strings and on timestamps.
\<close>

definition cmp_num :: "(xfloat \<Rightarrow> bool) \<Rightarrow> column \<Rightarrow> error + bool list" where
  "cmp_num p c =
     (case ctype c of
        Numeric \<Rightarrow> Inr (map (\<lambda>x. case x of Num v \<Rightarrow> p v | _ \<Rightarrow> False) (cells c))
      | Object \<Rightarrow> if list_ex notna (cells c) then Inl TypeError
                  else Inr (map (\<lambda>_. False) (cells c))
      | Datetime64 \<Rightarrow> Inl TypeError)"

text \<open>\<^verbatim>\<open>df[col] == k\<close> never raises: a value of another type is not equal.\<close>

definition eq_num :: "rat \<Rightarrow> column \<Rightarrow> bool list" where
  "eq_num k c = map (\<lambda>x. x = Num (Fin k)) (cells c)"

definition notna_count :: "table \<Rightarrow> string \<Rightarrow> int" where
  "notna_count df col =
     (case get_col (cols df) col of None \<Rightarrow> 0
      | Some c \<Rightarrow> int (length (filter notna (cells c))))"

definition MIN_ASSETS :: rat where
  "MIN_ASSETS = 100"

definition START_YEAR :: rat where
  "START_YEAR = 2000"

definition END_YEAR :: rat where
  "END_YEAR = 2024"

text \<open>
  The state of \<^verbatim>\<open>apply_filters\<close> of \<^verbatim>\<open>fetch_REIT_data.py\<close> between two filters: the
  frame, the list \<^verbatim>\<open>summary["filters_applied"]\<close>, and what has been printed as
  \<^verbatim>\<open>(removed ... rows)\<close>, one entry (filter number, count) for every filter that prints
  a count.
\<close>

type_synonym fstate = "table \<times> string list \<times> (nat \<times> int) list"

definition reit_filter1 :: "(cell \<Rightarrow> timestamp option) \<Rightarrow> fstate \<Rightarrow> error + fstate" where
  "reit_filter1 to_dt st =
     (let (df, applied, printed) = st
      in case get_col (cols df) ''date'' of
           None \<Rightarrow> Inr st
         | Some c \<Rightarrow>
             (case to_datetime_cells to_dt (cells c) of
                Inl e \<Rightarrow> Inl e
              | Inr ds \<Rightarrow>
                  let year = Column ''year'' Numeric (map dt_year ds);
                      df1 = Table (index df) (set_col year (cols df));
                      m = map (\<lambda>y. case y of Num v \<Rightarrow> Fin START_YEAR \<le> v \<and> v \<le> Fin END_YEAR
                                           | _ \<Rightarrow> False) (cells year)
                  in Inr (boolean_index m df1, applied @ [''year_filter_2000_2024''], printed)))"

definition reit_filter2 :: "fstate \<Rightarrow> error + fstate" where
  "reit_filter2 st =
     (let (df, applied, printed) = st
      in case get_col (cols df) ''assets'' of
           None \<Rightarrow> Inr st
         | Some c \<Rightarrow>
             let valid_assets = notna_count df ''assets''
             in (case cmp_num (\<lambda>v. Fin MIN_ASSETS \<le> v) c of
                   Inl e \<Rightarrow> Inl e
                 | Inr m \<Rightarrow>
                     let df' = boolean_index m df;
                         assets_removed = valid_assets - notna_count df' ''assets''
                     in Inr (df', applied @ [''min_assets_100M''], printed @ [(2, assets_removed)])))"

definition reit_filter3 :: "fstate \<Rightarrow> error + fstate" where
  "reit_filter3 st =
     (let (df, applied, printed) = st
      in case get_col (cols df) ''usdret'' of
           None \<Rightarrow> Inr st
         | Some c \<Rightarrow>
             let returns_before = notna_count df ''usdret'';
                 df' = boolean_index (map notna (cells c)) df;
                 returns_removed = returns_before - notna_count df' ''usdret''
             in Inr (df', applied @ [''valid_returns''], printed @ [(3, returns_removed)]))"

definition reit_filter4 :: "fstate \<Rightarrow> error + fstate" where
  "reit_filter4 st =
     (let (df, applied, printed) = st
      in case get_col (cols df) ''usdprc'' of
           None \<Rightarrow> Inr st
         | Some c \<Rightarrow>
             let price_before = notna_count df ''usdprc''
             in (case cmp_num (\<lambda>v. Fin 0 < v) c of
                   Inl e \<Rightarrow> Inl e
                 | Inr m \<Rightarrow>
                     let df' = boolean_index (map2 (\<and>) (map notna (cells c)) m) df;
                         price_removed = price_before - notna_count df' ''usdprc''
                     in Inr (df', applied @ [''valid_prices''], printed @ [(4, price_removed)])))"

definition reit_filter5 :: "fstate \<Rightarrow> error + fstate" where
  "reit_filter5 st =
     (let (df, applied, printed) = st
      in case get_col (cols df) ''rtype'' of
           None \<Rightarrow> Inr st
         | Some c \<Rightarrow>
             let rtype_before = int (nrows df);
                 df' = boolean_index (eq_num 2 c) df;
                 rtype_removed = rtype_before - int (nrows df')
             in Inr (df', applied @ [''rtype_2.0''], printed @ [(5, rtype_removed)]))"

definition bind_err :: "error + 'a \<Rightarrow> ('a \<Rightarrow> error + 'b) \<Rightarrow> error + 'b" where
  "bind_err x f = (case x of Inl e \<Rightarrow> Inl e | Inr v \<Rightarrow> f v)"

record filter_summary =
  f_rows_before :: nat
  f_rows_after :: nat
  filters_applied :: "string list"

definition reit_filter_chain :: "(cell \<Rightarrow> timestamp option) \<Rightarrow> table \<Rightarrow> error + fstate" where
  "reit_filter_chain to_dt df =
     bind_err (bind_err (bind_err (bind_err (reit_filter1 to_dt (df, [], []))
       reit_filter2) reit_filter3) reit_filter4) reit_filter5"

definition reit_apply_filters ::
  "(cell \<Rightarrow> timestamp option) \<Rightarrow> table \<Rightarrow> error + (table \<times> filter_summary \<times> (nat \<times> int) list)" where
  "reit_apply_filters to_dt df =
     (case reit_filter_chain to_dt df of
        Inl e \<Rightarrow> Inl e
      | Inr (df', applied, printed) \<Rightarrow>
          Inr (df', \<lparr> f_rows_before = nrows df, f_rows_after = nrows df',
                      filters_applied = applied \<rparr>, printed))"

subsection \<open>The filters of the climate pipeline\<close>

definition MIN_OBSERVATIONS :: nat where
  "MIN_OBSERVATIONS = 20"

definition MIN_STOCK_PRICE :: rat where
  "MIN_STOCK_PRICE = 1"

definition START_DATE :: timestamp where
  "START_DATE = (2000, 1, 1, 0)"

definition END_DATE :: timestamp where
  "END_DATE = (2024, 12, 31, 0)"

definition REQUIRED_COLUMNS :: "string list" where
  "REQUIRED_COLUMNS = [''date'', ''ticker'', ''stock_price'', ''climate_score'', ''returns'']"

text \<open>
  The state between two filters of \<^verbatim>\<open>apply_filters\<close> of \<^verbatim>\<open>fetch_Climate_data.py\<close>: the
  frame and the counts logged as \<^verbatim>\<open>(removed ... rows)\<close>.
\<close>

type_synonym cstate = "table \<times> (nat \<times> int) list"

definition climate_filter1 :: "(cell \<Rightarrow> timestamp option) \<Rightarrow> cstate \<Rightarrow> error + cstate" where
  "climate_filter1 to_dt st =
     (let (df, logged) = st
      in case get_col (cols df) ''date'' of
           None \<Rightarrow> Inr st
         | Some c \<Rightarrow>
             (case to_datetime_cells to_dt (cells c) of
                Inl e \<Rightarrow> Inl e
              | Inr ds \<Rightarrow>
                  let df1 = Table (index df) (set_col (Column ''date'' Datetime64 ds) (cols df));
                      m = map (\<lambda>d. case d of TS t \<Rightarrow> ts_le START_DATE t \<and> ts_le t END_DATE
                                           | _ \<Rightarrow> False) ds
                  in Inr (boolean_index m df1, logged)))"

definition climate_filter2 :: "cstate \<Rightarrow> error + cstate" where
  "climate_filter2 st =
     (let (df, logged) = st
      in case get_col (cols df) ''stock_price'' of
           None \<Rightarrow> Inr st
         | Some c \<Rightarrow>
             let price_before = int (nrows df)
             in (case cmp_num (\<lambda>v. Fin MIN_STOCK_PRICE \<le> v) c of
                   Inl e \<Rightarrow> Inl e
                 | Inr m \<Rightarrow>
                     let df' = boolean_index m df
                     in Inr (df', logged @ [(2, price_before - int (nrows df'))])))"

definition climate_filter3 :: "cstate \<Rightarrow> error + cstate" where
  "climate_filter3 st =
     (let (df, logged) = st
      in case get_col (cols df) ''climate_score'' of
           None \<Rightarrow> Inr st
         | Some c \<Rightarrow>
             let climate_before = int (nrows df);
                 df' = boolean_index (map notna (cells c)) df
             in Inr (df', logged @ [(3, climate_before - int (nrows df'))]))"

text \<open>
  \<^verbatim>\<open>df[required_cols].notna().all(axis=1)\<close>: true for a row when none of the required
  columns that the frame has is missing there; true for every row when it has none of
  them.
\<close>

definition all_notna :: "table \<Rightarrow> string list \<Rightarrow> bool list" where
  "all_notna df names =
     fold (\<lambda>name m. case get_col (cols df) name of
                       None \<Rightarrow> m
                     | Some c \<Rightarrow> map2 (\<and>) m (map notna (cells c)))
          names (replicate (nrows df) True)"

definition climate_filter4 :: "cstate \<Rightarrow> error + cstate" where
  "climate_filter4 st =
     (let (df, logged) = st;
          required_cols = filter (\<lambda>col. col \<in> set (columns df)) REQUIRED_COLUMNS;
          paired_before = int (nrows df);
          df' = boolean_index (all_notna df required_cols) df
      in Inr (df', logged @ [(4, paired_before - int (nrows df'))]))"

text \<open>\<^verbatim>\<open>np.isfinite\<close> of a column; it raises a TypeError on an object column.\<close>

definition isfinite :: "column \<Rightarrow> error + bool list" where
  "isfinite c =
     (case ctype c of
        Object \<Rightarrow> Inl TypeError
      | _ \<Rightarrow> Inr (map (\<lambda>x. case x of Num (Fin v) \<Rightarrow> True | TS t \<Rightarrow> True | _ \<Rightarrow> False) (cells c)))"

definition climate_filter5 :: "cstate \<Rightarrow> error + cstate" where
  "climate_filter5 st =
     (let (df, logged) = st
      in case get_col (cols df) ''returns'' of
           None \<Rightarrow> Inr st
         | Some c \<Rightarrow>
             let returns_before = int (nrows df)
             in (case isfinite c of
                   Inl e \<Rightarrow> Inl e
                 | Inr m \<Rightarrow>
                     let df' = boolean_index (map2 (\<and>) (map notna (cells c)) m) df
                     in Inr (df', logged @ [(5, returns_before - int (nrows df'))])))"

text \<open>
  Filter 6: \<^verbatim>\<open>value_counts()\<close> counts the values that are not missing; a company is
  small when it has fewer than \<open>MIN_OBSERVATIONS\<close> rows. The number of rows removed is not
  logged.
\<close>

definition small_companies :: "cell list \<Rightarrow> cell list" where
  "small_companies tickers =
     (let vs = filter notna tickers
      in remdups (filter (\<lambda>v. count_list vs v < MIN_OBSERVATIONS) vs))"

definition climate_filter6 :: "cstate \<Rightarrow> error + cstate" where
  "climate_filter6 st =
     (let (df, logged) = st
      in case get_col (cols df) ''ticker'' of
           None \<Rightarrow> Inr st
         | Some c \<Rightarrow>
             let small = small_companies (cells c)
             in if 0 < length small
                then Inr (boolean_index (map (\<lambda>x. x \<notin> set small) (cells c)) df, logged)
                else Inr st)"

definition climate_apply_filters ::
  "(cell \<Rightarrow> timestamp option) \<Rightarrow> table \<Rightarrow> error + cstate" where
  "climate_apply_filters to_dt df =
     bind_err (bind_err (bind_err (bind_err (bind_err (climate_filter1 to_dt (df, []))
       climate_filter2) climate_filter3) climate_filter4) climate_filter5) climate_filter6"

subsection \<open>The filter of the dataset2 pipeline\<close>

text \<open>
  \<^verbatim>\<open>apply_filters\<close> of \<^verbatim>\<open>fetch_dataset2_data.py\<close> removes the rows whose numeric values
  are all zero, when the frame has a numeric column.
\<close>

definition all_zero_rows :: "table \<Rightarrow> bool list" where
  "all_zero_rows df =
     fold (\<lambda>c m. map2 (\<and>) m (map (\<lambda>x. x = Num (Fin 0)) (cells c)))
          (filter (\<lambda>c. ctype c = Numeric) (cols df)) (replicate (nrows df) True)"

definition dataset2_apply_filters :: "table \<Rightarrow> table" where
  "dataset2_apply_filters df =
     (if 0 < length (numeric_cols df) then
        (if 0 < count_true (all_zero_rows df)
         then boolean_index (map Not (all_zero_rows df)) df else df)
      else df)"

section \<open>Validation\<close>

definition lower_char :: "char \<Rightarrow> char" where
  "lower_char c =
     (if 65 \<le> (of_char c :: nat) \<and> (of_char c :: nat) \<le> 90
      then char_of ((of_char c :: nat) + 32) else c)"

definition lower :: "string \<Rightarrow> string" where
  "lower s = map lower_char s"

text \<open>\<^verbatim>\<open>sub in s\<close> for strings.\<close>

fun contains :: "string \<Rightarrow> string \<Rightarrow> bool" where
  "contains sub [] = (sub = [])"
| "contains sub (x # xs) = (take (length sub) (x # xs) = sub \<or> contains sub xs)"

datatype level = INFO | WARNING | ERROR

text \<open>
  \<^verbatim>\<open>validate_cleaned_data\<close> (the same text in \<^verbatim>\<open>fetch_Climate_data.py\<close> and
  \<^verbatim>\<open>fetch_dataset2_data.py\<close>): the verdict and the log records it writes, each with its
  level and the check it belongs to.
\<close>

definition critical_cols :: "table \<Rightarrow> column list" where
  "critical_cols df = filter (\<lambda>c. contains ''id'' (lower (cname c))) (cols df)"

definition validate_cleaned_data :: "table \<Rightarrow> bool \<times> (level \<times> string) list" where
  "validate_cleaned_data df =
     (let crit = critical_cols df;
          log1 = (if crit \<noteq> [] then
                    (if sum_list (map null_count crit) = 0 then [(INFO, ''critical columns'')]
                     else [(WARNING, ''critical columns'')])
                  else [])
      in if 0 < nrows df
         then (True, log1 @ [(INFO, ''row count''), (INFO, ''data types'')])
         else (False, log1 @ [(ERROR, ''row count'')]))"

section \<open>The pipelines\<close>

text \<open>
  \<^verbatim>\<open>main\<close> of \<^verbatim>\<open>fetch_REIT_data.py\<close> after loading and before saving, with the
  module's constants \<^verbatim>\<open>OUTLIER_METHOD\<close> and \<^verbatim>\<open>MISSING_VALUE_THRESHOLD\<close> as
  arguments. The result is the list of the stages that have returned, and the frame or
  the exception that has ended the run.
\<close>

definition reit_main ::
  "(cell \<Rightarrow> timestamp option) \<Rightarrow> string \<Rightarrow> rat \<Rightarrow> table \<Rightarrow> string list \<times> (error + table)" where
  "reit_main to_dt method threshold df0 =
     (let (df1, missing_summary) = reit_clean_missing_values df0 threshold
      in case handle_outliers df1 method of
           Inl e \<Rightarrow> ([''clean_missing_values''], Inl e)
         | Inr (df2, outlier_summary) \<Rightarrow>
             let (df3, duplicate_summary) = reit_remove_duplicates df2
             in (case reit_apply_filters to_dt df3 of
                   Inl e \<Rightarrow> ([''clean_missing_values'', ''handle_outliers'', ''remove_duplicates''],
                              Inl e)
                 | Inr (df4, filter_summary, printed) \<Rightarrow>
                     ([''clean_missing_values'', ''handle_outliers'', ''remove_duplicates'',
                       ''apply_filters''], Inr df4)))"

text \<open>A column without infinite values.\<close>

definition finite_col :: "column \<Rightarrow> bool" where
  "finite_col c = list_all (\<lambda>x. x \<noteq> Num PInf \<and> x \<noteq> Num NInf) (cells c)"

text \<open>
  The specification of deduplication, in its words: the first occurrence of a row is
  kept, in row order, and every later row equal to it is removed.
\<close>

fun first_occurrences :: "'a list \<Rightarrow> 'a list" where
  "first_occurrences [] = []"
| "first_occurrences (x # xs) = x # first_occurrences (filter (\<lambda>y. y \<noteq> x) xs)"

text \<open>A date parser that rejects every value, for frames without a date column.\<close>

definition no_dates :: "cell \<Rightarrow> timestamp option" where
  "no_dates c = None"




text \<open>A date parser that knows one date, for the examples.\<close>

definition sample_dates :: "cell \<Rightarrow> timestamp option" where
  "sample_dates c = (if c = Str ''2020-01-15'' then Some (2020, 1, 15, 0) else None)"

text \<open>No row more, and the same number of columns.\<close>

definition shrinks :: "table \<Rightarrow> table \<Rightarrow> bool" where
  "shrinks t' t = (nrows t' \<le> nrows t \<and> ncols t' = ncols t)"

text \<open>A frame with a date column and a numeric column, for the examples.\<close>

definition example_frame :: table where
  "example_frame = Table [0, 1]
     [Column ''date'' Object [Str ''2020-01-15'', Null],
      Column ''assets'' Numeric [Num (Fin 150), Num (Fin 50)]]"

section \<open>IQR detection on the example column\<close>

text \<open>
  C8: on the column 1, 2, 3, 4, 5, 100 the IQR rule with multiplier 1.5 flags 100 and
  none of 1 to 5.
\<close>

theorem iqr_example_flags_100:
  "identify_outliers_iqr
     [Num (Fin 1), Num (Fin 2), Num (Fin 3), Num (Fin 4), Num (Fin 5), Num (Fin 100)] (3 / 2)
   = [False, False, False, False, False, True]"
  by code_simp

section \<open>Missing-value handling\<close>


lemma Fin_less [simp]: "(Fin a < Fin b) = (a < b)"
  by (auto simp: less_xfloat_def)

lemma fillna_Null [simp]: "fillna Null c = c"
  by (cases c) (simp add: fillna_def isnull_def map_idI)

lemma nums_all_null: "list_all isnull cs \<Longrightarrow> nums cs = []"
  by (induction cs) (auto simp: isnull_def)

lemma median_all_null: "list_all isnull cs \<Longrightarrow> median cs = None"
  by (simp add: median_def nums_all_null)

lemma null_count_le: "null_count c \<le> length (cells c)"
  by (simp add: null_count_def)

lemma not_dropped_ge1:
  assumes "1 \<le> threshold" and "length (cells c) = nrows df"
  shows "\<not> fl_gt (missing_pct df c) threshold"
proof (cases "nrows df = 0")
  case True
  with assms have "null_count c = 0" using null_count_le [of c] by simp
  with True show ?thesis by (simp add: missing_pct_def)
next
  case False
  have "null_count c \<le> nrows df" using null_count_le [of c] assms by simp
  then have "(of_nat (null_count c) :: rat) \<le> of_nat (nrows df)" by simp
  with False have "(of_nat (null_count c) :: rat) / of_nat (nrows df) \<le> 1"
    by (simp add: divide_le_eq_1)
  with assms(1) have "\<not> threshold < of_nat (null_count c) / of_nat (nrows df)"
    by linarith
  with False show ?thesis by (simp add: missing_pct_def)
qed

lemma reit_impute_all_null:
  "ctype c = Numeric \<Longrightarrow> list_all isnull (cells c) \<Longrightarrow> reit_impute c = c"
  by (simp add: reit_impute_def median_all_null to_cell_def)

lemma nums_set: "x \<in> set (nums cs) \<longleftrightarrow> Num x \<in> set cs"
  by (induction cs rule: nums.induct) auto

lemma median_finite:
  assumes "nums cs \<noteq> []" and "\<forall>x \<in> set (nums cs). \<exists>r. x = Fin r"
  shows "median cs \<noteq> None"
proof -
  define vs where "vs = sort (nums cs)"
  have ne: "length vs \<noteq> 0" using assms(1) by (simp add: vs_def)
  have fin: "\<And>k. k < length vs \<Longrightarrow> \<exists>r. vs ! k = Fin r"
  proof -
    fix k assume "k < length vs"
    then have "vs ! k \<in> set vs" by simp
    then have "vs ! k \<in> set (nums cs)" by (simp add: vs_def)
    with assms(2) show "\<exists>r. vs ! k = Fin r" by blast
  qed
  show ?thesis
  proof (cases "odd (length vs)")
    case True
    have "length vs div 2 < length vs" using ne by simp
    from fin [OF this] show ?thesis using True ne
      by (simp add: median_def vs_def [symmetric] Let_def)
  next
    case False
    have a: "length vs div 2 < length vs" using ne by simp
    then have b: "length vs div 2 - 1 < length vs" by simp
    from fin [OF a] obtain r where r: "vs ! (length vs div 2) = Fin r" by blast
    from fin [OF b] obtain q where q: "vs ! (length vs div 2 - 1) = Fin q" by blast
    show ?thesis using False ne r q
      by (simp add: median_def vs_def [symmetric] Let_def nscale_def)
  qed
qed

lemma fold_better_in: "fold (better ws) vs v \<in> set (v # vs)"
  by (induction vs arbitrary: v) (auto simp: better_def)

lemma mode0_notna:
  assumes "\<exists>x \<in> set cs. notna x"
  shows "\<exists>v. mode0 cs = Some v \<and> notna v"
proof -
  from assms have "filter notna cs \<noteq> []" by (simp add: filter_empty_conv)
  then obtain v vs where vv: "filter notna cs = v # vs" by (cases "filter notna cs") auto
  have "fold (better (v # vs)) vs v \<in> set (filter notna cs)"
    using fold_better_in [of "v # vs" vs v] vv by simp
  then have "notna (fold (better (v # vs)) vs v)" by simp
  with vv show ?thesis by (simp add: mode0_def)
qed

lemma fillna_no_null: "\<not> isnull v \<Longrightarrow> \<not> list_ex isnull (cells (fillna v c))"
  by (auto simp: fillna_def list_ex_iff)

lemma kept_has_value:
  assumes "\<not> fl_gt (missing_pct df c) threshold" and "threshold < 1"
    and "length (cells c) = nrows df" and "0 < null_count c"
  shows "\<exists>x \<in> set (cells c). notna x"
proof (rule ccontr)
  assume "\<not> (\<exists>x \<in> set (cells c). notna x)"
  then have "filter isnull (cells c) = cells c"
    by (simp add: notna_def isnull_def filter_id_conv)
  then have eq: "null_count c = nrows df" using assms(3) by (simp add: null_count_def)
  with assms(4) have "0 < nrows df" by simp
  with eq assms(1,2) show False by (simp add: missing_pct_def)
qed

lemma reit_impute_no_null:
  assumes "wf_column n c" and "finite_col c" and "0 < null_count c \<longrightarrow> (\<exists>x \<in> set (cells c). notna x)"
  shows "\<not> list_ex isnull (cells (reit_impute c))"
proof (cases "0 < null_count c")
  case False
  then have "filter isnull (cells c) = []" by (simp add: null_count_def)
  then show ?thesis using False by (simp add: reit_impute_def list_ex_iff filter_empty_conv)
next
  case True
  with assms(3) obtain x where x: "x \<in> set (cells c)" "notna x" by blast
  show ?thesis
  proof (cases "ctype c = Numeric")
    case num: True
    from assms(1) x(1) have "cell_ok Numeric x" by (simp add: wf_column_def num list_all_iff)
    with x(2) obtain v where "x = Num v" by (cases x) (auto simp: notna_def)
    with x(1) have "nums (cells c) \<noteq> []" using nums_set [of v "cells c"] by auto
    moreover have "\<forall>y \<in> set (nums (cells c)). \<exists>r. y = Fin r"
    proof
      fix y assume "y \<in> set (nums (cells c))"
      then have "Num y \<in> set (cells c)" by (simp add: nums_set)
      with assms(2) have "Num y \<noteq> Num PInf \<and> Num y \<noteq> Num NInf"
        unfolding finite_col_def list_all_iff by blast
      then show "\<exists>r. y = Fin r" by (cases y) auto
    qed
    ultimately obtain r where "median (cells c) = Some r" using median_finite by blast
    then show ?thesis using True num fillna_no_null [of "Num r" c]
      by (simp add: reit_impute_def to_cell_def isnull_def)
  next
    case False
    from x mode0_notna obtain v where "mode0 (cells c) = Some v" "notna v" by blast
    then show ?thesis using True False fillna_no_null [of v c]
      by (simp add: reit_impute_def isnull_def notna_def)
  qed
qed

lemma reit_clean_no_missing_finite:
  assumes "wf_table df" and "threshold < 1" and "list_all finite_col (cols df)"
  shows "\<not> has_missing (fst (reit_clean_missing_values df threshold))"
proof -
  have "\<not> list_ex isnull (cells (reit_impute c))"
    if "c \<in> set (cols df)" and "\<not> fl_gt (missing_pct df c) threshold" for c
  proof -
    from that(1) assms(1) have wf: "wf_column (nrows df) c" by (simp add: wf_table_def list_all_iff)
    from that(1) assms(3) have fc: "finite_col c" by (simp add: list_all_iff)
    from wf have "length (cells c) = nrows df" by (simp add: wf_column_def)
    with that(2) assms(2) have "0 < null_count c \<longrightarrow> (\<exists>x \<in> set (cells c). notna x)"
      using kept_has_value by blast
    with wf fc show ?thesis by (rule reit_impute_no_null)
  qed
  then show ?thesis
    by (auto simp: has_missing_def reit_clean_missing_values_def Let_def list_ex_iff)
qed

text \<open>
  C2: the frame returned by \<^verbatim>\<open>clean_missing_values\<close> has no missing value. This holds
  for a threshold below 1 when no numeric column holds an infinite value
  (\<open>reit_clean_no_missing_finite\<close>). The median of the values \<open>inf\<close> and \<open>-inf\<close> is
  NaN, though, and filling with NaN fills nothing: on the frame below, with the
  threshold 0.5 of the module, the missing value of column \<open>x\<close> is still there.
\<close>

theorem reit_clean_missing_values_leaves_nan:
  "has_missing (fst (reit_clean_missing_values
      (Table [0, 1, 2] [Column ''x'' Numeric [Num PInf, Num NInf, Null]]) (1 / 2)))"
  by code_simp

lemma climate_clean_missing_values_leaves_nan:
  "has_missing (climate_clean_missing_values
      (Table [0, 1, 2] [Column ''x'' Numeric [Num PInf, Num NInf, Null]]) (6 / 10))"
  by code_simp

text \<open>
  C3, as the code has it: with a threshold of 1 or more, a numeric column whose values
  are all missing is not dropped and \<^verbatim>\<open>clean_missing_values\<close> does not fail; its median
  is NaN, and the column is in the returned frame as it was, all missing.
\<close>

theorem clean_missing_values_keeps_all_missing_column:
  assumes "1 \<le> threshold" and "c \<in> set (cols df)" and "ctype c = Numeric"
    and "length (cells c) = nrows df" and "list_all isnull (cells c)"
  shows "c \<in> set (cols (fst (reit_clean_missing_values df threshold)))"
proof -
  have "c \<in> set (filter (\<lambda>c. \<not> fl_gt (missing_pct df c) threshold) (cols df))"
    using assms not_dropped_ge1 by simp
  then have "reit_impute c \<in> set (map reit_impute (filter (\<lambda>c. \<not> fl_gt (missing_pct df c) threshold) (cols df)))"
    by simp
  then show ?thesis
    using assms by (simp add: reit_clean_missing_values_def Let_def reit_impute_all_null)
qed


theorem clean_missing_values_keeps_all_missing_column_witness:
  "(1::rat) \<le> 1
   \<and> Column ''x'' Numeric [Null, Null]
       \<in> set (cols (Table [0, 1] [Column ''x'' Numeric [Null, Null],
                                   Column ''s'' Object [Str ''a'', Null]]))
   \<and> ctype (Column ''x'' Numeric [Null, Null]) = Numeric
   \<and> length (cells (Column ''x'' Numeric [Null, Null]))
       = nrows (Table [0, 1] [Column ''x'' Numeric [Null, Null],
                              Column ''s'' Object [Str ''a'', Null]])
   \<and> list_all isnull (cells (Column ''x'' Numeric [Null, Null]))
   \<and> Column ''x'' Numeric [Null, Null]
       \<in> set (cols (fst (reit_clean_missing_values
            (Table [0, 1] [Column ''x'' Numeric [Null, Null],
                           Column ''s'' Object [Str ''a'', Null]]) 1)))"
  using clean_missing_values_keeps_all_missing_column
    [of 1 "Column ''x'' Numeric [Null, Null]"
        "Table [0, 1] [Column ''x'' Numeric [Null, Null], Column ''s'' Object [Str ''a'', Null]]"]
  by (simp add: nrows_def isnull_def)

text \<open>
  The claim as the specification states it (a failure instead of NaN values) does not
  hold: at threshold 1 the frame with the all-missing column \<open>x\<close> is returned unchanged.
\<close>

theorem all_missing_column_returned_unchanged:
  "fst (reit_clean_missing_values (Table [0, 1] [Column ''x'' Numeric [Null, Null]]) 1)
   = Table [0, 1] [Column ''x'' Numeric [Null, Null]]"
  by code_simp


section \<open>Deduplication\<close>


lemma sel_map: "sel m (map f xs) = map f (sel m xs)"
  by (induction m xs rule: sel.induct) auto

lemma length_sel_le: "length (sel m xs) \<le> length xs"
  by (induction m xs rule: sel.induct) auto

lemma sel_nth:
  "length xs = length m \<Longrightarrow> sel m xs = map (\<lambda>i. xs ! i) (sel m [0..<length m])"
proof (induction m arbitrary: xs)
  case Nil
  then show ?case by simp
next
  case (Cons b m)
  then obtain x xs' where xs: "xs = x # xs'" and len: "length xs' = length m"
    by (cases xs) auto
  have upt: "[0..<length (b # m)] = 0 # map Suc [0..<length m]"
    by (simp add: upt_conv_Cons map_Suc_upt del: upt_Suc)
  have "map (\<lambda>i. (x # xs') ! i) (map Suc (sel m [0..<length m])) = sel m xs'"
    using Cons.IH [OF len] by (simp add: comp_def)
  then show ?case
    unfolding upt xs by (simp add: sel_map)
qed

lemma length_dup_from: "length (dup_from seen xs) = length xs"
  by (induction xs arbitrary: seen) auto

lemma length_rows: "length (rows t) = nrows t"
  by (simp add: rows_def)

lemma rows_boolean_index:
  assumes "wf_table t" and "length m = nrows t"
  shows "rows (boolean_index m t) = sel m (rows t)"
proof -
  define I where "I = sel m [0..<length m]"
  have li: "length (sel m (index t)) = length I"
    using sel_nth [of "index t" m] assms(2) by (simp add: I_def nrows_def)
  have col: "sel m (cells c) = map (\<lambda>i. cells c ! i) I" if "c \<in> set (cols t)" for c
  proof -
    from that assms have "length (cells c) = length m"
      by (simp add: wf_table_def wf_column_def list_all_iff)
    then show ?thesis unfolding I_def by (rule sel_nth)
  qed
  have "rows (boolean_index m t)
        = map (\<lambda>k. map (\<lambda>c. sel m (cells c) ! k) (cols t)) [0..<length I]"
    by (simp add: rows_def boolean_index_def nrows_def li sel_col_def comp_def)
  also have "\<dots> = map (\<lambda>k. map (\<lambda>c. cells c ! (I ! k)) (cols t)) [0..<length I]"
    using col by simp
  also have "\<dots> = map (\<lambda>i. map (\<lambda>c. cells c ! i) (cols t)) (map (\<lambda>k. I ! k) [0..<length I])"
    by (simp add: comp_def)
  also have "\<dots> = map (\<lambda>i. map (\<lambda>c. cells c ! i) (cols t)) I"
    by (simp only: map_nth)
  also have "\<dots> = sel m (rows t)"
    using assms(2) by (simp add: I_def rows_def sel_map)
  finally show ?thesis .
qed

lemma sel_dup_from:
  "sel (map Not (dup_from seen xs)) xs = first_occurrences (filter (\<lambda>x. x \<notin> set seen) xs)"
proof (induction xs arbitrary: seen)
  case Nil
  then show ?case by simp
next
  case (Cons x xs)
  show ?case
  proof (cases "x \<in> set seen")
    case True
    then have "filter (\<lambda>y. y \<notin> set (x # seen)) xs = filter (\<lambda>y. y \<notin> set seen) xs"
      by (auto intro: filter_cong)
    with True Cons.IH [of "x # seen"] show ?thesis by (simp del: set_simps)
  next
    case False
    have "filter (\<lambda>y. y \<noteq> x) (filter (\<lambda>y. y \<notin> set seen) xs)
          = filter (\<lambda>y. y \<notin> set (x # seen)) xs"
      by (auto intro: filter_cong)
    with False Cons.IH [of "x # seen"] show ?thesis by simp
  qed
qed

lemma set_first_occurrences: "set (first_occurrences xs) = set xs"
  by (induction xs rule: first_occurrences.induct) auto

lemma distinct_first_occurrences: "distinct (first_occurrences xs)"
  by (induction xs rule: first_occurrences.induct) (auto simp: set_first_occurrences)

lemma dup_from_distinct:
  "distinct xs \<Longrightarrow> set xs \<inter> set seen = {} \<Longrightarrow> count_true (dup_from seen xs) = 0"
proof (induction xs arbitrary: seen)
  case Nil
  then show ?case by (simp add: count_true_def)
next
  case (Cons x xs)
  then have "count_true (dup_from (x # seen) xs) = 0" by auto
  with Cons.prems show ?case by (simp add: count_true_def)
qed

lemma rows_drop_duplicates:
  assumes "wf_table t" and "\<not> df_empty t"
  shows "rows (drop_duplicates t) = first_occurrences (rows t)"
proof -
  have "length (map Not (duplicated t)) = nrows t"
    using assms(2) by (simp add: duplicated_def length_dup_from length_rows)
  from rows_boolean_index [OF assms(1) this] show ?thesis
    using assms(2) by (simp add: drop_duplicates_def duplicated_def sel_dup_from)
qed

lemma sel_all:
  "count_true m = 0 \<Longrightarrow> length m = length xs \<Longrightarrow> sel (map Not m) xs = xs"
proof (induction m arbitrary: xs)
  case Nil
  then show ?case by simp
next
  case (Cons b m)
  then obtain y ys where "xs = y # ys" by (cases xs) auto
  with Cons show ?case by (auto simp: count_true_def split: if_splits)
qed

lemma no_dups_first_occurrences:
  assumes "count_true (dup_from [] xs) = 0"
  shows "first_occurrences xs = xs"
proof -
  have "sel (map Not (dup_from [] xs)) xs = xs"
    using assms by (rule sel_all) (simp add: length_dup_from)
  then show ?thesis by (simp add: sel_dup_from)
qed

text \<open>
  C5, as the code has it: \<^verbatim>\<open>remove_duplicates\<close> is idempotent on every frame. On a
  frame with at least one column its rows are the first occurrences of the rows of the
  input, in their order, every later equal row removed. A frame without columns is
  \<^verbatim>\<open>df.empty\<close> for pandas and is returned as it is, with all its rows.
\<close>

theorem remove_duplicates_idempotent_first:
  assumes "wf_table t"
  shows "remove_duplicates (remove_duplicates t) = remove_duplicates t
       \<and> (cols t \<noteq> [] \<longrightarrow> rows (remove_duplicates t) = first_occurrences (rows t))
       \<and> (cols t = [] \<longrightarrow> remove_duplicates t = t)"
proof (cases "0 < count_true (duplicated t)")
  case False
  then have same: "remove_duplicates t = t" by (simp add: remove_duplicates_def)
  have "rows t = first_occurrences (rows t)" if "cols t \<noteq> []"
  proof (cases "index t = []")
    case True
    then show ?thesis by (simp add: rows_def nrows_def)
  next
    case ne: False
    with that False have "count_true (dup_from [] (rows t)) = 0"
      by (simp add: duplicated_def df_empty_def)
    then show ?thesis by (simp add: no_dups_first_occurrences)
  qed
  with same show ?thesis by simp
next
  case True
  then have ne: "\<not> df_empty t"
    by (auto simp: duplicated_def count_true_def)
  from True have rd: "remove_duplicates t = drop_duplicates t"
    by (simp add: remove_duplicates_def)
  have r: "rows (drop_duplicates t) = first_occurrences (rows t)"
    using assms ne by (rule rows_drop_duplicates)
  have "count_true (duplicated (drop_duplicates t)) = 0"
  proof (cases "df_empty (drop_duplicates t)")
    case True
    then show ?thesis by (simp add: duplicated_def count_true_def)
  next
    case False
    have "count_true (dup_from [] (first_occurrences (rows t))) = 0"
      by (rule dup_from_distinct) (simp_all add: distinct_first_occurrences)
    with False r show ?thesis by (simp add: duplicated_def)
  qed
  then have "remove_duplicates (drop_duplicates t) = drop_duplicates t"
    by (simp add: remove_duplicates_def)
  with rd r ne show ?thesis by (simp add: df_empty_def)
qed

theorem remove_duplicates_idempotent_first_witness:
  "wf_table (Table [0, 1, 2]
         [Column ''k'' Object [Str ''a'', Str ''b'', Str ''a''],
          Column ''v'' Numeric [Null, Num (Fin 1), Null]])
   \<and> cols (Table [0, 1, 2]
         [Column ''k'' Object [Str ''a'', Str ''b'', Str ''a''],
          Column ''v'' Numeric [Null, Num (Fin 1), Null]]) \<noteq> []
   \<and> rows (remove_duplicates (Table [0, 1, 2]
         [Column ''k'' Object [Str ''a'', Str ''b'', Str ''a''],
          Column ''v'' Numeric [Null, Num (Fin 1), Null]]))
       = [[Str ''a'', Null], [Str ''b'', Num (Fin 1)]]
   \<and> remove_duplicates (remove_duplicates (Table [0, 1, 2]
         [Column ''k'' Object [Str ''a'', Str ''b'', Str ''a''],
          Column ''v'' Numeric [Null, Num (Fin 1), Null]]))
       = remove_duplicates (Table [0, 1, 2]
         [Column ''k'' Object [Str ''a'', Str ''b'', Str ''a''],
          Column ''v'' Numeric [Null, Num (Fin 1), Null]])"
proof -
  have wf: "wf_table (Table [0, 1, 2]
         [Column ''k'' Object [Str ''a'', Str ''b'', Str ''a''],
          Column ''v'' Numeric [Null, Num (Fin 1), Null]])"
    by (simp add: wf_table_def wf_column_def nrows_def columns_def)
  have ev: "first_occurrences (rows (Table [0, 1, 2]
         [Column ''k'' Object [Str ''a'', Str ''b'', Str ''a''],
          Column ''v'' Numeric [Null, Num (Fin 1), Null]]))
       = [[Str ''a'', Null], [Str ''b'', Num (Fin 1)]]"
    by code_simp
  show ?thesis
    using wf ev remove_duplicates_idempotent_first [OF wf] by simp
qed

text \<open>
  The two rows of a frame with two rows and no column are equal, and both are kept.
\<close>

theorem zero_column_frame_keeps_equal_rows:
  "rows (remove_duplicates (Table [0, 1] [])) = [[], []]
   \<and> first_occurrences (rows (Table [0, 1] [])) = [[]]"
  by code_simp


section \<open>The validator\<close>

text \<open>
  C9: \<^verbatim>\<open>validate_cleaned_data\<close> returns a verdict, never an exception; the verdict is
  false exactly when the frame has no row. Missing values in a column whose name contains
  \<open>id\<close> give a warning in the log and leave the verdict true when there is a row.
\<close>

theorem validate_fails_iff_empty:
  "(fst (validate_cleaned_data df) = False \<longleftrightarrow> nrows df = 0)
   \<and> (0 < nrows df \<longrightarrow> (\<exists>c \<in> set (critical_cols df). 0 < null_count c) \<longrightarrow>
        fst (validate_cleaned_data df) = True
        \<and> (WARNING, ''critical columns'') \<in> set (snd (validate_cleaned_data df)))"
proof -
  have "sum_list (map null_count (critical_cols df)) \<noteq> 0 \<and> critical_cols df \<noteq> []"
    if "\<exists>c \<in> set (critical_cols df). 0 < null_count c"
    using that by (auto simp: sum_list_eq_0_iff)
  then show ?thesis
    by (auto simp: validate_cleaned_data_def Let_def)
qed

theorem validate_fails_iff_empty_witness:
  "0 < nrows (Table [0, 1] [Column ''Entity_ID'' Object [Str ''a'', Null]])
   \<and> (\<exists>c \<in> set (critical_cols (Table [0, 1] [Column ''Entity_ID'' Object [Str ''a'', Null]])).
         0 < null_count c)
   \<and> fst (validate_cleaned_data (Table [0, 1] [Column ''Entity_ID'' Object [Str ''a'', Null]]))
       = True
   \<and> (WARNING, ''critical columns'')
       \<in> set (snd (validate_cleaned_data
                     (Table [0, 1] [Column ''Entity_ID'' Object [Str ''a'', Null]])))
   \<and> nrows (Table [] [Column ''Entity_ID'' Object []]) = 0
   \<and> fst (validate_cleaned_data (Table [] [Column ''Entity_ID'' Object []])) = False"
proof -
  have h1: "0 < nrows (Table [0, 1] [Column ''Entity_ID'' Object [Str ''a'', Null]])"
    by (simp add: nrows_def)
  have c: "critical_cols (Table [0, 1] [Column ''Entity_ID'' Object [Str ''a'', Null]])
       = [Column ''Entity_ID'' Object [Str ''a'', Null]]"
    by code_simp
  have h2: "\<exists>c \<in> set (critical_cols (Table [0, 1] [Column ''Entity_ID'' Object [Str ''a'', Null]])).
         0 < null_count c"
    unfolding c by (simp add: null_count_def isnull_def)
  have h3: "nrows (Table [] [Column ''Entity_ID'' Object []]) = 0"
    by (simp add: nrows_def)
  show ?thesis
    using h1 h2 h3
      validate_fails_iff_empty [of "Table [0, 1] [Column ''Entity_ID'' Object [Str ''a'', Null]]"]
      validate_fails_iff_empty [of "Table [] [Column ''Entity_ID'' Object []]"]
    by blast
qed


section \<open>Z-scores of a constant column\<close>

text \<open>
  The test \<open>zgt\<close> is the comparison of the source: for a positive variance \<open>v\<close> it
  holds exactly when the threshold is below \<open>\<bar>d / sqrt v\<bar>\<close>.
\<close>

lemma zgt_sqrt:
  assumes "0 < v"
  shows "zgt d v thr \<longleftrightarrow> (of_rat thr :: real) < \<bar>of_rat d / sqrt (of_rat v)\<bar>"
proof -
  define s where "s = sqrt (of_rat v :: real)"
  have s: "0 < s" and s2: "s\<^sup>2 = of_rat v" using assms by (simp_all add: s_def)
  have abs: "\<bar>of_rat d / s\<bar> = \<bar>of_rat d\<bar> / s" using s by simp
  show ?thesis
  proof (cases "thr < 0")
    case True
    then have "(of_rat thr :: real) < 0" by simp
    also have "0 \<le> \<bar>of_rat d / s\<bar>" by simp
    finally show ?thesis using True assms by (simp add: zgt_def s_def)
  next
    case False
    then have t: "0 \<le> (of_rat thr :: real)" by simp
    have "(of_rat thr :: real) < \<bar>of_rat d\<bar> / s \<longleftrightarrow> of_rat thr * s < \<bar>of_rat d\<bar>"
      using s by (simp add: pos_less_divide_eq)
    also have "\<dots> \<longleftrightarrow> (of_rat thr * s)\<^sup>2 < \<bar>of_rat d :: real\<bar>\<^sup>2"
    proof
      assume "of_rat thr * s < \<bar>of_rat d :: real\<bar>"
      moreover have "0 \<le> of_rat thr * s" using t s by simp
      ultimately show "(of_rat thr * s)\<^sup>2 < \<bar>of_rat d :: real\<bar>\<^sup>2"
        by (simp add: power_strict_mono)
    next
      assume "(of_rat thr * s)\<^sup>2 < \<bar>of_rat d :: real\<bar>\<^sup>2"
      then show "of_rat thr * s < \<bar>of_rat d :: real\<bar>"
        by (rule power2_less_imp_less) simp
    qed
    also have "\<dots> \<longleftrightarrow> (of_rat (thr\<^sup>2 * v) :: real) < of_rat (d\<^sup>2)"
      by (simp only: power2_abs power_mult_distrib s2 of_rat_mult of_rat_power)
    also have "\<dots> \<longleftrightarrow> thr\<^sup>2 * v < d\<^sup>2"
      by (rule of_rat_less)
    finally show ?thesis using False assms abs by (simp add: zgt_def s_def)
  qed
qed










section \<open>An unknown outlier method\<close>

lemma outliers_loop_unknown:
  assumes "method \<noteq> ''iqr''" and "method \<noteq> ''zscore''"
  shows "outliers_loop method cs s
         = (if list_ex (\<lambda>c. ctype c = Numeric) cs then Inl ValueError else Inr (cs, s))"
  using assms by (induction cs) (auto simp: outlier_mask_def)

lemma numeric_cols_empty: "numeric_cols df = [] \<longleftrightarrow> \<not> list_ex (\<lambda>c. ctype c = Numeric) (cols df)"
  by (simp add: numeric_cols_def filter_empty_conv list_ex_iff)

text \<open>
  C7, as the code has it: \<^verbatim>\<open>handle_outliers\<close> checks the method inside its loop over the
  numeric columns. With a method that is neither \<open>iqr\<close> nor \<open>zscore\<close> the run ends
  with a ValueError when the frame has a numeric column after missing-value handling, and
  then missing-value handling is the one stage that has returned; without a numeric
  column the method is not looked at and the outlier stage returns the frame as it is.
\<close>

theorem unknown_method_rejected_in_outlier_stage:
  assumes "method \<noteq> ''iqr''" and "method \<noteq> ''zscore''"
  shows "(numeric_cols (fst (reit_clean_missing_values df0 threshold)) \<noteq> [] \<longrightarrow>
           reit_main to_dt method threshold df0 = ([''clean_missing_values''], Inl ValueError))
       \<and> (numeric_cols (fst (reit_clean_missing_values df0 threshold)) = [] \<longrightarrow>
           handle_outliers (fst (reit_clean_missing_values df0 threshold)) method
           = Inr (fst (reit_clean_missing_values df0 threshold),
                  \<lparr> outliers_found = 0, columns_processed = 0 \<rparr>))"
proof -
  obtain df1 ms where c: "reit_clean_missing_values df0 threshold = (df1, ms)"
    by (cases "reit_clean_missing_values df0 threshold")
  have "handle_outliers df1 method = Inl ValueError" if "numeric_cols df1 \<noteq> []"
    using that assms by (simp add: handle_outliers_def outliers_loop_unknown numeric_cols_empty)
  moreover have "handle_outliers df1 method
      = Inr (df1, \<lparr> outliers_found = 0, columns_processed = 0 \<rparr>)" if "numeric_cols df1 = []"
    using that assms by (simp add: handle_outliers_def outliers_loop_unknown numeric_cols_empty)
  ultimately show ?thesis
    by (simp add: reit_main_def c)
qed

theorem unknown_method_rejected_in_outlier_stage_witness:
  "''foo'' \<noteq> ''iqr'' \<and> ''foo'' \<noteq> ''zscore''
   \<and> numeric_cols (fst (reit_clean_missing_values
        (Table [0, 1] [Column ''assets'' Numeric [Num (Fin 150), Null]]) (1 / 2))) \<noteq> []
   \<and> reit_main no_dates ''foo'' (1 / 2) (Table [0, 1] [Column ''assets'' Numeric [Num (Fin 150), Null]])
       = ([''clean_missing_values''], Inl ValueError)"
proof -
  have h1: "''foo'' \<noteq> ''iqr''" and h2: "''foo'' \<noteq> ''zscore''" by simp_all
  have h3: "numeric_cols (fst (reit_clean_missing_values
        (Table [0, 1] [Column ''assets'' Numeric [Num (Fin 150), Null]]) (1 / 2))) \<noteq> []"
    by code_simp
  show ?thesis
    using h1 h2 h3 unknown_method_rejected_in_outlier_stage [OF h1 h2, of
        "Table [0, 1] [Column ''assets'' Numeric [Num (Fin 150), Null]]" "1 / 2" no_dates]
    by blast
qed

text \<open>
  A frame without a numeric column goes through all four stages with the method
  \<open>foo\<close>: no configuration error, before or after any stage.
\<close>

theorem unknown_method_accepted_without_numeric_column:
  "reit_main no_dates ''foo'' (1 / 2) (Table [0, 1] [Column ''name'' Object [Str ''a'', Str ''b'']])
   = ([''clean_missing_values'', ''handle_outliers'', ''remove_duplicates'', ''apply_filters''],
      Inr (Table [0, 1] [Column ''name'' Object [Str ''a'', Str ''b'']]))"
  by code_simp


section \<open>Counts reported by the filters\<close>

lemma get_col_sel_col:
  "get_col (map (sel_col m) cs) name = map_option (sel_col m) (get_col cs name)"
  by (induction cs) (auto simp: sel_col_def)

lemma sel_notna: "sel (map notna cs) cs = filter notna cs"
  by (induction cs) auto

lemma reit_filter3_reports_zero:
  assumes "get_col (cols df) ''usdret'' = Some c"
  shows "reit_filter3 (df, applied, printed)
         = Inr (boolean_index (map notna (cells c)) df,
                applied @ [''valid_returns''], printed @ [(3, 0)])"
  using assms
  by (simp add: reit_filter3_def notna_count_def boolean_index_def get_col_sel_col
      sel_col_def sel_notna)

text \<open>
  C4: a filter reports the number of rows it has removed. Filter 3 of
  \<^verbatim>\<open>fetch_REIT_data.py\<close> prints the difference of two counts of values that are not
  missing, which is zero whatever it removes (\<open>reit_filter3_reports_zero\<close>): on the
  frame below it removes one row of two and reports 0. Filter 2 and filter 4 count in
  the same way; filter 5 and the filters of the climate pipeline use \<^verbatim>\<open>len(df)\<close>.
\<close>

theorem valid_returns_filter_reports_zero:
  "reit_apply_filters no_dates (Table [0, 1] [Column ''usdret'' Numeric [Null, Num (Fin 2)]])
   = Inr (Table [1] [Column ''usdret'' Numeric [Num (Fin 2)]],
          \<lparr> f_rows_before = 2, f_rows_after = 1, filters_applied = [''valid_returns''] \<rparr>,
          [(3, 0)])"
  by code_simp

lemma min_assets_filter_reports_zero:
  "reit_apply_filters no_dates (Table [0, 1] [Column ''assets'' Numeric [Null, Num (Fin 200)]])
   = Inr (Table [1] [Column ''assets'' Numeric [Num (Fin 200)]],
          \<lparr> f_rows_before = 2, f_rows_after = 1, filters_applied = [''min_assets_100M''] \<rparr>,
          [(2, 0)])"
  by code_simp


section \<open>IQR detection and rank-based capping\<close>
















section \<open>Rows and columns across the stages\<close>

lemma shrinks_refl: "shrinks t t"
  by (simp add: shrinks_def)

lemma shrinks_trans: "shrinks t3 t2 \<Longrightarrow> shrinks t2 t1 \<Longrightarrow> shrinks t3 t1"
  by (simp add: shrinks_def)

lemma shrinks_boolean_index: "shrinks (boolean_index m t) t"
  by (simp add: shrinks_def boolean_index_def nrows_def ncols_def length_sel_le)

lemma get_col_Some: "get_col cs name = Some c \<Longrightarrow> name \<in> set (map cname cs)"
  by (induction cs) (auto split: if_splits)

lemma get_col_None: "get_col cs name = None \<Longrightarrow> name \<notin> set (map cname cs)"
  by (induction cs) (auto split: if_splits)

lemma length_set_col:
  "length (set_col c cs) = (if cname c \<in> set (map cname cs) then length cs else length cs + 1)"
  by (induction cs) auto

lemma outliers_loop_length:
  "outliers_loop method cs s = Inr (cs', s') \<Longrightarrow> length cs' = length cs"
proof (induction cs arbitrary: s cs' s')
  case Nil
  then show ?case by simp
next
  case (Cons c cs)
  then show ?case
    by (fastforce simp: Let_def split: if_splits sum.splits prod.splits)
qed

lemma handle_outliers_shape:
  "handle_outliers df method = Inr (df', s) \<Longrightarrow> nrows df' = nrows df \<and> ncols df' = ncols df"
  by (auto simp: handle_outliers_def nrows_def ncols_def split: sum.splits prod.splits
      dest: outliers_loop_length)

lemma zscore_step_shrinks: "shrinks (zscore_step z col t) t"
  by (simp add: zscore_step_def Let_def shrinks_refl shrinks_boolean_index split: option.splits)

lemma fold_shrinks:
  assumes "\<And>x t. shrinks (f x t) t"
  shows "shrinks (fold f xs t) t"
proof (induction xs arbitrary: t)
  case Nil
  then show ?case by (simp add: shrinks_refl)
next
  case (Cons x xs)
  have "shrinks (fold f xs (f x t)) (f x t)" by (rule Cons.IH)
  then show ?case using assms [of x t] by (auto intro: shrinks_trans)
qed

lemma handle_outliers_zscore_shrinks: "shrinks (handle_outliers_zscore df z) df"
  unfolding handle_outliers_zscore_def by (rule fold_shrinks) (rule zscore_step_shrinks)

lemma drop_duplicates_shrinks: "shrinks (drop_duplicates t) t"
  by (simp add: drop_duplicates_def shrinks_refl shrinks_boolean_index)

lemma remove_duplicates_shrinks: "shrinks (remove_duplicates t) t"
  by (simp add: remove_duplicates_def Let_def shrinks_refl drop_duplicates_shrinks)

lemma reit_remove_duplicates_eq: "fst (reit_remove_duplicates t) = remove_duplicates t"
  by (simp add: reit_remove_duplicates_def remove_duplicates_def Let_def)

lemma reit_clean_shape:
  "nrows (fst (reit_clean_missing_values df thr)) = nrows df
   \<and> ncols (fst (reit_clean_missing_values df thr)) \<le> ncols df"
  by (simp add: reit_clean_missing_values_def Let_def nrows_def ncols_def)

lemma climate_clean_shape:
  "nrows (climate_clean_missing_values df thr) = nrows df
   \<and> ncols (climate_clean_missing_values df thr) \<le> ncols df"
  by (simp add: climate_clean_missing_values_def Let_def nrows_def ncols_def)

lemma bind_err_Inr: "bind_err x f = Inr y \<Longrightarrow> \<exists>v. x = Inr v \<and> f v = Inr y"
  by (cases x) (auto simp: bind_err_def)

lemma reit_filter2_shrinks: "reit_filter2 st = Inr st' \<Longrightarrow> shrinks (fst st') (fst st)"
  by (auto simp: reit_filter2_def Let_def shrinks_refl shrinks_boolean_index
      split: prod.splits option.splits sum.splits)

lemma reit_filter3_shrinks: "reit_filter3 st = Inr st' \<Longrightarrow> shrinks (fst st') (fst st)"
  by (auto simp: reit_filter3_def Let_def shrinks_refl shrinks_boolean_index
      split: prod.splits option.splits sum.splits)

lemma reit_filter4_shrinks: "reit_filter4 st = Inr st' \<Longrightarrow> shrinks (fst st') (fst st)"
  by (auto simp: reit_filter4_def Let_def shrinks_refl shrinks_boolean_index
      split: prod.splits option.splits sum.splits)

lemma reit_filter5_shrinks: "reit_filter5 st = Inr st' \<Longrightarrow> shrinks (fst st') (fst st)"
  by (auto simp: reit_filter5_def Let_def shrinks_refl shrinks_boolean_index
      split: prod.splits option.splits sum.splits)

lemma reit_filter1_shape:
  assumes "reit_filter1 to_dt (df, a, p) = Inr (df', a', p')"
  shows "nrows df' \<le> nrows df
       \<and> ncols df' = (if ''date'' \<in> set (columns df) \<and> ''year'' \<notin> set (columns df)
                       then ncols df + 1 else ncols df)"
proof (cases "get_col (cols df) ''date''")
  case None
  then have "''date'' \<notin> set (columns df)" using get_col_None [OF None] by (simp add: columns_def)
  with None assms show ?thesis by (simp add: reit_filter1_def)
next
  case (Some c)
  then have d: "''date'' \<in> set (columns df)" using get_col_Some [OF Some] by (simp add: columns_def)
  from Some assms obtain ds where ds: "to_datetime_cells to_dt (cells c) = Inr ds"
    by (cases "to_datetime_cells to_dt (cells c)") (auto simp: reit_filter1_def)
  define df1 where "df1 = Table (index df) (set_col (Column ''year'' Numeric (map dt_year ds)) (cols df))"
  from Some ds assms obtain m where "df' = boolean_index m df1"
    by (auto simp: reit_filter1_def Let_def df1_def)
  then have "shrinks df' df1" by (simp add: shrinks_boolean_index)
  moreover have "nrows df1 = nrows df" by (simp add: df1_def nrows_def)
  moreover have "ncols df1 = (if ''year'' \<in> set (columns df) then ncols df else ncols df + 1)"
    by (simp add: df1_def ncols_def columns_def length_set_col)
  ultimately show ?thesis using d by (simp add: shrinks_def)
qed

lemma reit_apply_filters_shape:
  assumes "reit_apply_filters to_dt df = Inr (df', fs, pr)"
  shows "nrows df' \<le> nrows df
       \<and> ncols df' = (if ''date'' \<in> set (columns df) \<and> ''year'' \<notin> set (columns df)
                       then ncols df + 1 else ncols df)"
proof -
  from assms obtain a p where ch: "reit_filter_chain to_dt df = Inr (df', a, p)"
    by (auto simp: reit_apply_filters_def split: sum.splits prod.splits)
  from ch obtain s4 where s4: "reit_filter5 s4 = Inr (df', a, p)"
    and c4: "bind_err (bind_err (bind_err (reit_filter1 to_dt (df, [], [])) reit_filter2)
               reit_filter3) reit_filter4 = Inr s4"
    unfolding reit_filter_chain_def by (blast dest: bind_err_Inr)
  from c4 obtain s3 where s3: "reit_filter4 s3 = Inr s4"
    and c3: "bind_err (bind_err (reit_filter1 to_dt (df, [], [])) reit_filter2) reit_filter3 = Inr s3"
    by (blast dest: bind_err_Inr)
  from c3 obtain s2 where s2: "reit_filter3 s2 = Inr s3"
    and c2: "bind_err (reit_filter1 to_dt (df, [], [])) reit_filter2 = Inr s2"
    by (blast dest: bind_err_Inr)
  from c2 obtain s1 where s1: "reit_filter2 s1 = Inr s2"
    and c1: "reit_filter1 to_dt (df, [], []) = Inr s1"
    by (blast dest: bind_err_Inr)
  obtain d1 a1 p1 where e1: "s1 = (d1, a1, p1)" by (cases s1)
  have "shrinks df' (fst s4)" using reit_filter5_shrinks [OF s4] by simp
  moreover have "shrinks (fst s4) (fst s3)" by (rule reit_filter4_shrinks [OF s3])
  moreover have "shrinks (fst s3) (fst s2)" by (rule reit_filter3_shrinks [OF s2])
  moreover have "shrinks (fst s2) d1" using reit_filter2_shrinks [OF s1] by (simp add: e1)
  ultimately have "shrinks df' d1" by (blast intro: shrinks_trans)
  with reit_filter1_shape [OF c1 [unfolded e1]] show ?thesis
    by (simp add: shrinks_def)
qed

lemma climate_filter1_shrinks:
  assumes "climate_filter1 to_dt st = Inr st'"
  shows "shrinks (fst st') (fst st)"
proof -
  obtain df lg where st: "st = (df, lg)" by (cases st)
  show ?thesis
  proof (cases "get_col (cols df) ''date''")
    case None
    with assms st show ?thesis by (simp add: climate_filter1_def shrinks_refl)
  next
    case (Some c)
    from assms st Some obtain ds where ds: "to_datetime_cells to_dt (cells c) = Inr ds"
      by (cases "to_datetime_cells to_dt (cells c)") (auto simp: climate_filter1_def)
    define df1 where "df1 = Table (index df) (set_col (Column ''date'' Datetime64 ds) (cols df))"
    from Some ds assms st obtain m where "fst st' = boolean_index m df1"
      by (auto simp: climate_filter1_def Let_def df1_def)
    then have "shrinks (fst st') df1" by (simp add: shrinks_boolean_index)
    moreover have "shrinks df1 df"
      using get_col_Some [OF Some] by (simp add: shrinks_def df1_def nrows_def ncols_def length_set_col)
    ultimately show ?thesis using st by (auto intro: shrinks_trans)
  qed
qed

lemma climate_filter2_shrinks: "climate_filter2 st = Inr st' \<Longrightarrow> shrinks (fst st') (fst st)"
  by (auto simp: climate_filter2_def Let_def shrinks_refl shrinks_boolean_index
      split: prod.splits option.splits sum.splits)

lemma climate_filter3_shrinks: "climate_filter3 st = Inr st' \<Longrightarrow> shrinks (fst st') (fst st)"
  by (auto simp: climate_filter3_def Let_def shrinks_refl shrinks_boolean_index
      split: prod.splits option.splits sum.splits)

lemma climate_filter4_shrinks: "climate_filter4 st = Inr st' \<Longrightarrow> shrinks (fst st') (fst st)"
  by (auto simp: climate_filter4_def Let_def shrinks_refl shrinks_boolean_index
      split: prod.splits option.splits sum.splits)

lemma climate_filter5_shrinks: "climate_filter5 st = Inr st' \<Longrightarrow> shrinks (fst st') (fst st)"
  by (auto simp: climate_filter5_def Let_def shrinks_refl shrinks_boolean_index
      split: prod.splits option.splits sum.splits)

lemma climate_filter6_shrinks: "climate_filter6 st = Inr st' \<Longrightarrow> shrinks (fst st') (fst st)"
  by (auto simp: climate_filter6_def Let_def shrinks_refl shrinks_boolean_index
      split: prod.splits option.splits sum.splits if_splits)

lemma climate_apply_filters_shrinks:
  assumes "climate_apply_filters to_dt df = Inr (df', lg)"
  shows "shrinks df' df"
proof -
  from assms obtain s5 where s5: "climate_filter6 s5 = Inr (df', lg)"
    and c5: "bind_err (bind_err (bind_err (bind_err (climate_filter1 to_dt (df, []))
       climate_filter2) climate_filter3) climate_filter4) climate_filter5 = Inr s5"
    unfolding climate_apply_filters_def by (blast dest: bind_err_Inr)
  from c5 obtain s4 where s4: "climate_filter5 s4 = Inr s5"
    and c4: "bind_err (bind_err (bind_err (climate_filter1 to_dt (df, []))
       climate_filter2) climate_filter3) climate_filter4 = Inr s4"
    by (blast dest: bind_err_Inr)
  from c4 obtain s3 where s3: "climate_filter4 s3 = Inr s4"
    and c3: "bind_err (bind_err (climate_filter1 to_dt (df, [])) climate_filter2) climate_filter3 = Inr s3"
    by (blast dest: bind_err_Inr)
  from c3 obtain s2 where s2: "climate_filter3 s2 = Inr s3"
    and c2: "bind_err (climate_filter1 to_dt (df, [])) climate_filter2 = Inr s2"
    by (blast dest: bind_err_Inr)
  from c2 obtain s1 where s1: "climate_filter2 s1 = Inr s2"
    and c1: "climate_filter1 to_dt (df, []) = Inr s1"
    by (blast dest: bind_err_Inr)
  have "shrinks df' (fst s5)" using climate_filter6_shrinks [OF s5] by simp
  moreover have "shrinks (fst s5) (fst s4)" by (rule climate_filter5_shrinks [OF s4])
  moreover have "shrinks (fst s4) (fst s3)" by (rule climate_filter4_shrinks [OF s3])
  moreover have "shrinks (fst s3) (fst s2)" by (rule climate_filter3_shrinks [OF s2])
  moreover have "shrinks (fst s2) (fst s1)" by (rule climate_filter2_shrinks [OF s1])
  moreover have "shrinks (fst s1) df" using climate_filter1_shrinks [OF c1] by simp
  ultimately show ?thesis by (blast intro: shrinks_trans)
qed

lemma dataset2_apply_filters_shrinks: "shrinks (dataset2_apply_filters df) df"
  by (simp add: dataset2_apply_filters_def shrinks_refl shrinks_boolean_index)

text \<open>
  C1, as the code has it: no stage adds a row. Missing-value handling keeps the rows and
  may drop columns; outlier handling by capping keeps both; z-score removal,
  deduplication and the filters of the climate and dataset2 pipelines keep the columns
  and may remove rows. \<^verbatim>\<open>apply_filters\<close> of \<^verbatim>\<open>fetch_REIT_data.py\<close> derives the
  column \<open>year\<close> from \<open>date\<close>: it returns one column more when the frame has a column
  \<open>date\<close> and no column \<open>year\<close>, and the same number of columns otherwise.
\<close>

theorem stages_never_add_rows:
  "nrows (fst (reit_clean_missing_values df thr)) = nrows df
   \<and> ncols (fst (reit_clean_missing_values df thr)) \<le> ncols df
   \<and> nrows (climate_clean_missing_values df thr) = nrows df
   \<and> ncols (climate_clean_missing_values df thr) \<le> ncols df
   \<and> (handle_outliers df meth = Inr (df1, os) \<longrightarrow> nrows df1 = nrows df \<and> ncols df1 = ncols df)
   \<and> nrows (handle_outliers_zscore df z) \<le> nrows df
   \<and> ncols (handle_outliers_zscore df z) = ncols df
   \<and> nrows (remove_duplicates df) \<le> nrows df
   \<and> ncols (remove_duplicates df) = ncols df
   \<and> nrows (fst (reit_remove_duplicates df)) \<le> nrows df
   \<and> ncols (fst (reit_remove_duplicates df)) = ncols df
   \<and> (reit_apply_filters to_dt df = Inr (df2, fs, pr) \<longrightarrow>
        nrows df2 \<le> nrows df
        \<and> ncols df2 = (if ''date'' \<in> set (columns df) \<and> ''year'' \<notin> set (columns df)
                        then ncols df + 1 else ncols df))
   \<and> (climate_apply_filters to_dt df = Inr (df3, lg) \<longrightarrow>
        nrows df3 \<le> nrows df \<and> ncols df3 = ncols df)
   \<and> nrows (dataset2_apply_filters df) \<le> nrows df
   \<and> ncols (dataset2_apply_filters df) = ncols df"
  using reit_clean_shape [of df thr] climate_clean_shape [of df thr]
    handle_outliers_shape [of df meth df1 os]
    handle_outliers_zscore_shrinks [of df z] remove_duplicates_shrinks [of df]
    reit_apply_filters_shape [of to_dt df df2 fs pr]
    climate_apply_filters_shrinks [of to_dt df df3 lg]
    dataset2_apply_filters_shrinks [of df]
  by (simp add: shrinks_def reit_remove_duplicates_eq)


theorem stages_never_add_rows_witness:
  "handle_outliers example_frame ''iqr''
     = Inr (example_frame, \<lparr> outliers_found = 0, columns_processed = 0 \<rparr>)
   \<and> reit_apply_filters sample_dates example_frame
     = Inr (Table [0] [Column ''date'' Object [Str ''2020-01-15''],
                       Column ''assets'' Numeric [Num (Fin 150)],
                       Column ''year'' Numeric [Num (Fin 2020)]],
            \<lparr> f_rows_before = 2, f_rows_after = 1,
              filters_applied = [''year_filter_2000_2024'', ''min_assets_100M''] \<rparr>,
            [(2, 0)])
   \<and> climate_apply_filters sample_dates example_frame
     = Inr (Table [0] [Column ''date'' Datetime64 [TS (2020, 1, 15, 0)],
                       Column ''assets'' Numeric [Num (Fin 150)]], [(4, 0)])
   \<and> nrows (Table [0] [Column ''date'' Object [Str ''2020-01-15''],
                        Column ''assets'' Numeric [Num (Fin 150)],
                        Column ''year'' Numeric [Num (Fin 2020)]]) \<le> nrows example_frame
   \<and> ncols (Table [0] [Column ''date'' Object [Str ''2020-01-15''],
                        Column ''assets'' Numeric [Num (Fin 150)],
                        Column ''year'' Numeric [Num (Fin 2020)]]) = ncols example_frame + 1
   \<and> nrows (Table [0] [Column ''date'' Datetime64 [TS (2020, 1, 15, 0)],
                        Column ''assets'' Numeric [Num (Fin 150)]]) \<le> nrows example_frame
   \<and> ncols (Table [0] [Column ''date'' Datetime64 [TS (2020, 1, 15, 0)],
                        Column ''assets'' Numeric [Num (Fin 150)]]) = ncols example_frame
   \<and> nrows (handle_outliers_zscore example_frame 3) \<le> nrows example_frame"
proof -
  have h1: "handle_outliers example_frame ''iqr''
     = Inr (example_frame, \<lparr> outliers_found = 0, columns_processed = 0 \<rparr>)"
    by code_simp
  have h2: "reit_apply_filters sample_dates example_frame
     = Inr (Table [0] [Column ''date'' Object [Str ''2020-01-15''],
                       Column ''assets'' Numeric [Num (Fin 150)],
                       Column ''year'' Numeric [Num (Fin 2020)]],
            \<lparr> f_rows_before = 2, f_rows_after = 1,
              filters_applied = [''year_filter_2000_2024'', ''min_assets_100M''] \<rparr>,
            [(2, 0)])"
    by code_simp
  have h3: "climate_apply_filters sample_dates example_frame
     = Inr (Table [0] [Column ''date'' Datetime64 [TS (2020, 1, 15, 0)],
                       Column ''assets'' Numeric [Num (Fin 150)]], [(4, 0)])"
    by code_simp
  have d: "''date'' \<in> set (columns example_frame) \<and> ''year'' \<notin> set (columns example_frame)"
    by code_simp
  from d have d': "(if ''date'' \<in> set (columns example_frame) \<and> ''year'' \<notin> set (columns example_frame)
                    then ncols example_frame + 1 else ncols example_frame) = ncols example_frame + 1"
    by simp
  show ?thesis
    using h1 h2 h3
      stages_never_add_rows [where df = example_frame and to_dt = sample_dates
        and meth = "''iqr''" and z = 3
        and ?df1.0 = example_frame and os = "\<lparr> outliers_found = 0, columns_processed = 0 \<rparr>"
        and ?df2.0 = "Table [0] [Column ''date'' Object [Str ''2020-01-15''],
                       Column ''assets'' Numeric [Num (Fin 150)],
                       Column ''year'' Numeric [Num (Fin 2020)]]"
        and fs = "\<lparr> f_rows_before = 2, f_rows_after = 1,
              filters_applied = [''year_filter_2000_2024'', ''min_assets_100M''] \<rparr>"
        and pr = "[(2, 0)]"
        and ?df3.0 = "Table [0] [Column ''date'' Datetime64 [TS (2020, 1, 15, 0)],
                       Column ''assets'' Numeric [Num (Fin 150)]]"
        and lg = "[(4, 0)]", unfolded d']
    by blast
qed

text \<open>
  The year filter on a frame with the one column \<open>date\<close>: one column goes in, two come
  out.
\<close>

theorem year_filter_adds_a_column:
  "ncols (Table [0] [Column ''date'' Object [Str ''2020-01-15'']]) = 1
   \<and> reit_apply_filters sample_dates (Table [0] [Column ''date'' Object [Str ''2020-01-15'']])
     = Inr (Table [0] [Column ''date'' Object [Str ''2020-01-15''],
                       Column ''year'' Numeric [Num (Fin 2020)]],
            \<lparr> f_rows_before = 1, f_rows_after = 1,
              filters_applied = [''year_filter_2000_2024''] \<rparr>, [])
   \<and> ncols (Table [0] [Column ''date'' Object [Str ''2020-01-15''],
                        Column ''year'' Numeric [Num (Fin 2020)]]) = 2"
  by code_simp

end
